theory Spec2Isabelle
  imports Complex_Main "HOL-Library.Word" "HOL-Library.Sublist"
begin

section \<open>JavaScript strings\<close>

text \<open>
  A JavaScript string is a sequence of UTF-16 code units.  Literals of the source are
  written \<open>js ''...''\<close>; every literal of the two screens is ASCII.
\<close>

type_synonym jschar = "16 word"
type_synonym jsstring = "jschar list"

definition js :: "string \<Rightarrow> jsstring" where
  "js s = map of_char s"

text \<open>
  \<open>String.prototype.trim\<close> removes the code units of the ECMAScript productions
  WhiteSpace and LineTerminator from both ends: TAB, LF, VT, FF, CR, SP, NBSP, U+1680,
  U+2000 to U+200A, U+2028, U+2029, U+202F, U+205F, U+3000 and U+FEFF.
\<close>

definition is_trim_ws :: "jschar \<Rightarrow> bool" where
  "is_trim_ws c \<longleftrightarrow>
     c = 0x0009 \<or> c = 0x000A \<or> c = 0x000B \<or> c = 0x000C \<or> c = 0x000D \<or> c = 0x0020 \<or>
     c = 0x00A0 \<or> c = 0x1680 \<or> (0x2000 \<le> c \<and> c \<le> 0x200A) \<or> c = 0x2028 \<or>
     c = 0x2029 \<or> c = 0x202F \<or> c = 0x205F \<or> c = 0x3000 \<or> c = 0xFEFF"

definition trim :: "jsstring \<Rightarrow> jsstring" where
  "trim s = rev (dropWhile is_trim_ws (rev (dropWhile is_trim_ws s)))"

text \<open>Decimal digits of a non-negative integer, as a template literal prints it.\<close>

fun show_nat :: "nat \<Rightarrow> jsstring" where
  "show_nat n = (if n < 10 then [0x30 + of_nat n]
                 else show_nat (n div 10) @ [0x30 + of_nat (n mod 10)])"

declare show_nat.simps [simp del]

section \<open>JSON values and \<open>JSON.parse\<close>\<close>

text \<open>
  A parsed number is kept exactly, as mantissa and decimal exponent (\<open>m * 10 ^ e\<close>);
  an object keeps its members in source order, duplicates included.
\<close>

datatype json =
    JNull
  | JBool bool
  | JNumber int int
  | JString jsstring
  | JArray "json list"
  | JObject "(jsstring \<times> json) list"

definition is_json_ws :: "jschar \<Rightarrow> bool" where
  "is_json_ws c \<longleftrightarrow> c = 0x20 \<or> c = 0x09 \<or> c = 0x0A \<or> c = 0x0D"

definition skip_ws :: "jsstring \<Rightarrow> jsstring" where
  "skip_ws s = dropWhile is_json_ws s"

definition is_digit :: "jschar \<Rightarrow> bool" where
  "is_digit c \<longleftrightarrow> 0x30 \<le> c \<and> c \<le> 0x39"

definition digits_val :: "jsstring \<Rightarrow> nat" where
  "digits_val ds = foldl (\<lambda>n d. 10 * n + unat (d - 0x30)) 0 ds"

definition hex_val :: "jschar \<Rightarrow> jschar option" where
  "hex_val c =
     (if 0x30 \<le> c \<and> c \<le> 0x39 then Some (c - 0x30)
      else if 0x41 \<le> c \<and> c \<le> 0x46 then Some (c - 0x41 + 10)
      else if 0x61 \<le> c \<and> c \<le> 0x66 then Some (c - 0x61 + 10)
      else None)"

definition hex4 :: "jschar \<Rightarrow> jschar \<Rightarrow> jschar \<Rightarrow> jschar \<Rightarrow> jschar option" where
  "hex4 a b c d =
     (case (hex_val a, hex_val b, hex_val c, hex_val d) of
        (Some w, Some x, Some y, Some z) \<Rightarrow> Some (((w * 16 + x) * 16 + y) * 16 + z)
      | _ \<Rightarrow> None)"

definition simple_escape :: "jschar \<Rightarrow> jschar option" where
  "simple_escape e =
     (if e = 0x22 then Some 0x22
      else if e = 0x5C then Some 0x5C
      else if e = 0x2F then Some 0x2F
      else if e = 0x62 then Some 0x08
      else if e = 0x66 then Some 0x0C
      else if e = 0x6E then Some 0x0A
      else if e = 0x72 then Some 0x0D
      else if e = 0x74 then Some 0x09
      else None)"

text \<open>The characters of a string literal after its opening quote, up to the closing one.\<close>

fun parse_string :: "jsstring \<Rightarrow> jsstring \<Rightarrow> (jsstring \<times> jsstring) option" where
  "parse_string [] acc = None"
| "parse_string (c # cs) acc =
     (if c = 0x22 then Some (acc, cs)
      else if c = 0x5C then
        (case cs of
           [] \<Rightarrow> None
         | e # r \<Rightarrow>
             if e = 0x75 then
               (case r of
                  h1 # h2 # h3 # h4 # r' \<Rightarrow>
                    (case hex4 h1 h2 h3 h4 of
                       None \<Rightarrow> None
                     | Some u \<Rightarrow> parse_string r' (acc @ [u]))
                | _ \<Rightarrow> None)
             else
               (case simple_escape e of
                  None \<Rightarrow> None
                | Some x \<Rightarrow> parse_string r (acc @ [x])))
      else if c < 0x20 then None
      else parse_string cs (acc @ [c]))"

text \<open>
  The grammar of a number: an optional minus, an integer part without a leading zero
  (unless it is the single digit 0), an optional fraction, an optional exponent.
\<close>

definition parse_int_part :: "jsstring \<Rightarrow> (jsstring \<times> jsstring) option" where
  "parse_int_part s =
     (case s of
        [] \<Rightarrow> None
      | c # cs \<Rightarrow>
          if c = 0x30 then Some ([c], cs)
          else if is_digit c then Some (takeWhile is_digit s, dropWhile is_digit s)
          else None)"

definition parse_frac :: "jsstring \<Rightarrow> (jsstring \<times> jsstring) option" where
  "parse_frac s =
     (case s of
        [] \<Rightarrow> Some ([], s)
      | c # cs \<Rightarrow>
          if c = 0x2E then
            (if takeWhile is_digit cs = [] then None
             else Some (takeWhile is_digit cs, dropWhile is_digit cs))
          else Some ([], s))"

definition parse_exp_digits :: "bool \<Rightarrow> jsstring \<Rightarrow> (int \<times> jsstring) option" where
  "parse_exp_digits neg s =
     (if takeWhile is_digit s = [] then None
      else Some ((if neg then - int (digits_val (takeWhile is_digit s))
                  else int (digits_val (takeWhile is_digit s))),
                 dropWhile is_digit s))"

definition parse_exp :: "jsstring \<Rightarrow> (int \<times> jsstring) option" where
  "parse_exp s =
     (case s of
        [] \<Rightarrow> Some (0, s)
      | c # cs \<Rightarrow>
          if c = 0x65 \<or> c = 0x45 then
            (case cs of
               [] \<Rightarrow> None
             | g # r \<Rightarrow>
                 if g = 0x2B then parse_exp_digits False r
                 else if g = 0x2D then parse_exp_digits True r
                 else parse_exp_digits False cs)
          else Some (0, s))"

definition parse_unsigned :: "bool \<Rightarrow> jsstring \<Rightarrow> (json \<times> jsstring) option" where
  "parse_unsigned neg s =
     (case parse_int_part s of
        None \<Rightarrow> None
      | Some (ip, s1) \<Rightarrow>
          (case parse_frac s1 of
             None \<Rightarrow> None
           | Some (fp, s2) \<Rightarrow>
               (case parse_exp s2 of
                  None \<Rightarrow> None
                | Some (ex, s3) \<Rightarrow>
                    Some (JNumber ((if neg then - 1 else 1) * int (digits_val (ip @ fp)))
                                  (ex - int (length fp)), s3))))"

definition parse_number :: "jsstring \<Rightarrow> (json \<times> jsstring) option" where
  "parse_number s =
     (case s of
        [] \<Rightarrow> None
      | c # cs \<Rightarrow> if c = 0x2D then parse_unsigned True cs else parse_unsigned False s)"

definition strip_prefix :: "jsstring \<Rightarrow> jsstring \<Rightarrow> jsstring option" where
  "strip_prefix p s = (if take (length p) s = p then Some (drop (length p) s) else None)"

definition parse_literal :: "jsstring \<Rightarrow> (json \<times> jsstring) option" where
  "parse_literal s =
     (case strip_prefix (js ''true'') s of
        Some r \<Rightarrow> Some (JBool True, r)
      | None \<Rightarrow>
          (case strip_prefix (js ''false'') s of
             Some r \<Rightarrow> Some (JBool False, r)
           | None \<Rightarrow>
               (case strip_prefix (js ''null'') s of
                  Some r \<Rightarrow> Some (JNull, r)
                | None \<Rightarrow> parse_number s)))"

lemma length_skip_ws: "length (skip_ws s) \<le> length s"
  by (simp add: skip_ws_def length_dropWhile_le)

lemma skip_ws_Cons_shorter: "skip_ws s = c # cs \<Longrightarrow> length cs < length s"
  using length_skip_ws [of s] by simp

lemma parse_string_shorter:
  "parse_string s acc = Some (str, r) \<Longrightarrow> length r < length s"
proof (induction s acc rule: parse_string.induct)
  case (1 acc)
  then show ?case by simp
next
  case (2 c cs acc)
  show ?case
  proof (cases "c = 0x22")
    case True
    with 2(4) show ?thesis by simp
  next
    case q: False
    show ?thesis
    proof (cases "c = 0x5C")
      case True
      show ?thesis
      proof (cases cs)
        case Nil
        with 2(4) q True show ?thesis by simp
      next
        case (Cons e r0)
        show ?thesis
        proof (cases "e = 0x75")
          case u: True
          from 2(4) q True Cons u obtain h1 h2 h3 h4 r' w
            where r0: "r0 = h1 # h2 # h3 # h4 # r'" and h: "hex4 h1 h2 h3 h4 = Some w"
              and p: "parse_string r' (acc @ [w]) = Some (str, r)"
            by (auto split: list.splits option.splits)
          from 2(1) [OF q True Cons u r0 refl refl refl h p]
          show ?thesis using Cons r0 by simp
        next
          case nu: False
          from 2(4) q True Cons nu obtain x
            where x: "simple_escape e = Some x"
              and p: "parse_string r0 (acc @ [x]) = Some (str, r)"
            by (auto split: option.splits)
          from 2(2) [OF q True Cons nu x p]
          show ?thesis using Cons by simp
        qed
      qed
    next
      case nb: False
      with 2(4) q have c: "\<not> c < 0x20" and p: "parse_string cs (acc @ [c]) = Some (str, r)"
        by (auto split: if_splits)
      from 2(3) [OF q nb c p] show ?thesis by simp
    qed
  qed
qed

text \<open>
  A value, the elements of an array after its opening bracket, and the members of an
  object after its opening brace.  A parsed value always consumes input
  (\<open>parse_value_shorter\<close> below); the length tests make that visible to the
  termination proof.
\<close>

function parse_value :: "jsstring \<Rightarrow> (json \<times> jsstring) option"
  and parse_elements :: "jsstring \<Rightarrow> json list \<Rightarrow> (json list \<times> jsstring) option"
  and parse_members ::
    "jsstring \<Rightarrow> (jsstring \<times> json) list \<Rightarrow> ((jsstring \<times> json) list \<times> jsstring) option"
where
  "parse_value s =
     (case skip_ws s of
        [] \<Rightarrow> None
      | c # cs \<Rightarrow>
          if c = 0x5B then
            (case skip_ws cs of
               [] \<Rightarrow> None
             | d # ds \<Rightarrow>
                 if d = 0x5D then Some (JArray [], ds)
                 else
                   (case parse_elements cs [] of
                      None \<Rightarrow> None
                    | Some (vs, r) \<Rightarrow> Some (JArray vs, r)))
          else if c = 0x7B then
            (case skip_ws cs of
               [] \<Rightarrow> None
             | d # ds \<Rightarrow>
                 if d = 0x7D then Some (JObject [], ds)
                 else
                   (case parse_members cs [] of
                      None \<Rightarrow> None
                    | Some (ms, r) \<Rightarrow> Some (JObject ms, r)))
          else if c = 0x22 then
            (case parse_string cs [] of
               None \<Rightarrow> None
             | Some (str, r) \<Rightarrow> Some (JString str, r))
          else parse_literal (c # cs))"
| "parse_elements s acc =
     (case parse_value s of
        None \<Rightarrow> None
      | Some (v, r) \<Rightarrow>
          if length r < length s then
            (case skip_ws r of
               [] \<Rightarrow> None
             | c # cs \<Rightarrow>
                 if c = 0x2C then parse_elements cs (acc @ [v])
                 else if c = 0x5D then Some (acc @ [v], cs)
                 else None)
          else None)"
| "parse_members s acc =
     (case skip_ws s of
        [] \<Rightarrow> None
      | q # cs \<Rightarrow>
          if q \<noteq> 0x22 then None
          else
            (case parse_string cs [] of
               None \<Rightarrow> None
             | Some (key, r) \<Rightarrow>
                 (case skip_ws r of
                    [] \<Rightarrow> None
                  | colon # r2 \<Rightarrow>
                      if colon \<noteq> 0x3A then None
                      else
                        (case parse_value r2 of
                           None \<Rightarrow> None
                         | Some (v, r3) \<Rightarrow>
                             if length r3 < length r2 then
                               (case skip_ws r3 of
                                  [] \<Rightarrow> None
                                | c # r4 \<Rightarrow>
                                    if c = 0x2C then parse_members r4 (acc @ [(key, v)])
                                    else if c = 0x7D then Some (acc @ [(key, v)], r4)
                                    else None)
                             else None))))"
  by pat_completeness auto

termination
proof (relation "measure (\<lambda>x. case x of
          Inl s \<Rightarrow> 2 * length s
        | Inr (Inl (s, acc)) \<Rightarrow> 2 * length s + 1
        | Inr (Inr (s, acc)) \<Rightarrow> 2 * length s + 1)", goal_cases)
  case 1
  then show ?case by simp
next
  case (2 s c cs d ds)
  then show ?case using skip_ws_Cons_shorter [of s c cs] by simp
next
  case (3 s c cs d ds)
  then show ?case using skip_ws_Cons_shorter [of s c cs] by simp
next
  case (4 s acc)
  then show ?case by simp
next
  case (5 s acc x v r c cs)
  then show ?case using skip_ws_Cons_shorter [of r c cs] by simp
next
  case (6 s acc q cs x key r colon r2)
  then show ?case
    using skip_ws_Cons_shorter [of s q cs] skip_ws_Cons_shorter [of r colon r2]
      parse_string_shorter [of cs "[]" key r]
    by simp
next
  case (7 s acc q cs x key r colon r2 y v r3 c r4)
  then show ?case
    using skip_ws_Cons_shorter [of s q cs] skip_ws_Cons_shorter [of r colon r2]
      parse_string_shorter [of cs "[]" key r] skip_ws_Cons_shorter [of r3 c r4]
    by simp
qed

declare parse_value.simps [simp del] parse_elements.simps [simp del]
  parse_members.simps [simp del]

text \<open>\<open>JSON.parse\<close>: one value, then nothing but whitespace; \<open>None\<close> is the SyntaxError.\<close>

definition JSON_parse :: "jsstring \<Rightarrow> json option" where
  "JSON_parse s =
     (case parse_value s of
        None \<Rightarrow> None
      | Some (v, r) \<Rightarrow> if skip_ws r = [] then Some v else None)"

text \<open>
  \<open>ToBoolean\<close> of a parsed value.  A number is falsy when its double is zero: the
  mantissa is zero, or the exact value is at most \<open>2 ^ - 1075\<close>, half the least positive
  double, which rounds to zero.
\<close>

definition number_is_zero :: "int \<Rightarrow> int \<Rightarrow> bool" where
  "number_is_zero m e \<longleftrightarrow> m = 0 \<or> (e < 0 \<and> \<bar>m\<bar> * 2 ^ 1075 \<le> 10 ^ nat (- e))"

fun ToBoolean :: "json \<Rightarrow> bool" where
  "ToBoolean JNull = False"
| "ToBoolean (JBool b) = b"
| "ToBoolean (JNumber m e) = (\<not> number_is_zero m e)"
| "ToBoolean (JString s) = (s \<noteq> [])"
| "ToBoolean (JArray vs) = True"
| "ToBoolean (JObject ms) = True"

section \<open>Messages, thrown values and the two collaborators\<close>

text \<open>
  The text of a message is a string of the program, the string conversion of a value
  that is not a string (where that conversion does not throw), or the wording the
  JavaScript engine gives one of its own errors (which differs between engines).
\<close>

datatype engine_error = JSON_SyntaxError | Null_Property_TypeError | ToPrimitive_TypeError

datatype message =
    Text jsstring
  | StringOf json
  | EngineText engine_error

text \<open>What a \<open>throw\<close> or a rejected promise carries: an \<open>Error\<close> instance or anything else.\<close>

datatype thrown = Error_instance message | Not_an_Error

text \<open>
  \<open>new Error(v)\<close> converts \<open>v\<close> with ToString.  An object is converted through its
  \<open>toString\<close> and then its \<open>valueOf\<close>.  A parsed object with a member named \<open>toString\<close>
  holds there a value that cannot be called, and its \<open>valueOf\<close> is either such a member
  too or the inherited one, which gives back the object: the conversion throws a
  TypeError.  Without such a member the inherited \<open>toString\<close> answers.  An array joins the
  conversions of its elements (\<open>null\<close> gives the empty string) and throws when one of
  them does.  Strings, numbers, booleans and \<open>null\<close> convert without throwing.
\<close>

fun ToString_throws :: "json \<Rightarrow> bool" where
  "ToString_throws (JObject ms) = (js ''toString'' \<in> fst ` set ms)"
| "ToString_throws (JArray vs) = (\<exists>v \<in> set vs. ToString_throws v)"
| "ToString_throws v = False"

fun converted :: "json \<Rightarrow> message" where
  "converted (JString s) = Text s"
| "converted v = StringOf v"

definition ToString :: "json \<Rightarrow> thrown + message" where
  "ToString v =
     (if ToString_throws v then Inl (Error_instance (EngineText ToPrimitive_TypeError))
      else Inr (converted v))"

text \<open>
  \<open>errorData.message\<close>: reading a property of \<open>null\<close> throws a TypeError; an object
  yields its last member of that name; every other value has no such property.
\<close>

fun get_message :: "json \<Rightarrow> thrown + json option" where
  "get_message JNull = Inl (Error_instance (EngineText Null_Property_TypeError))"
| "get_message (JObject ms) = Inr (map_of (rev ms) (js ''message''))"
| "get_message v = Inr None"

record session =
  access_token :: jsstring

datatype auth_error = AuthError

text \<open>The reply of \<open>supabase.auth.getSession()\<close>: \<open>{ data: { session }, error }\<close>.\<close>

record session_reply =
  reply_session :: "session option"
  reply_error :: "auth_error option"

text \<open>
  A response of \<open>fetch\<close>.  \<open>text_result\<close> is what reading the body gives: the decoded
  text, or the rejection of the read.  \<open>ok\<close> is true for the statuses 200 to 299.
\<close>

record response =
  status :: nat
  statusText :: jsstring
  text_result :: "thrown + jsstring"

definition ok :: "response \<Rightarrow> bool" where
  "ok r \<longleftrightarrow> 200 \<le> status r \<and> status r \<le> 299"

text \<open>\<open>response.json()\<close> reads the body and parses it.\<close>

definition json_result :: "response \<Rightarrow> thrown + json" where
  "json_result r =
     (case text_result r of
        Inl err \<Rightarrow> Inl err
      | Inr t \<Rightarrow>
          (case JSON_parse t of
             None \<Rightarrow> Inl (Error_instance (EngineText JSON_SyntaxError))
           | Some v \<Rightarrow> Inr v))"

text \<open>
  Everything outside the screen that one run meets: the environment variable, the outcome
  of the session lookup and the outcome of the one \<open>fetch\<close> (\<open>Inl\<close>: the promise rejects).
\<close>

record world =
  EXPO_PUBLIC_API_URL :: "jsstring option"
  getSession_result :: "thrown + session_reply"
  fetch_result :: "thrown + response"

section \<open>The review form (\<open>reviews/create.tsx\<close>)\<close>

text \<open>The route parameters; an absent one is \<open>undefined\<close>.\<close>

record route_params =
  param_name :: "jsstring option"
  param_address :: "jsstring option"
  param_provider :: "jsstring option"
  param_providerId :: "jsstring option"
  param_lat :: "jsstring option"
  param_lng :: "jsstring option"

text \<open>The double that \<open>parseFloat\<close> returns for a text.\<close>

datatype parsed_float = ParseFloat jsstring

definition coordinate :: "jsstring option \<Rightarrow> parsed_float option" where
  "coordinate p =
     (case p of
        None \<Rightarrow> None
      | Some t \<Rightarrow> if t = [] then None else Some (ParseFloat t))"

record draft =
  dishes :: "jsstring list"
  rating :: nat
  isSubmitting :: bool

record reviewData =
  provider :: "jsstring option"
  providerId :: "jsstring option"
  name :: "jsstring option"
  address :: "jsstring option"
  lat :: "parsed_float option"
  lng :: "parsed_float option"
  rating :: nat
  review_text :: jsstring
  dishes :: "jsstring list"

text \<open>A request as handed to \<open>fetch\<close>; the body is the object given to \<open>JSON.stringify\<close>.\<close>

record request =
  url :: jsstring
  http_method :: "jsstring option"
  headers :: "(jsstring \<times> jsstring) list"
  body :: "reviewData option"

datatype nav = RouterBack

text \<open>A button of an alert: its label and what pressing it does.\<close>

datatype button = Button jsstring "nav list"

datatype effect =
    SetIsSubmitting bool
  | SetReviews json
  | SetLoading bool
  | SetRefreshing bool
  | Alert_alert jsstring message "button list"
  | GetSession
  | Fetch request
  | ConsoleLog "jsstring list"
  | ConsoleError thrown

definition initial_draft :: draft where
  "initial_draft = \<lparr>draft.dishes = [[]], draft.rating = 0, isSubmitting = False\<rparr>"

definition addAnotherDish :: "draft \<Rightarrow> draft" where
  "addAnotherDish d = d\<lparr>draft.dishes := draft.dishes d @ [[]]\<rparr>"

definition updateDish :: "nat \<Rightarrow> jsstring \<Rightarrow> draft \<Rightarrow> draft" where
  "updateDish index t d =
     d\<lparr>draft.dishes :=
          map (\<lambda>(i, dish). if i = index then t else dish)
            (zip [0 ..< length (draft.dishes d)] (draft.dishes d))\<rparr>"

definition removeDish :: "nat \<Rightarrow> draft \<Rightarrow> draft" where
  "removeDish index d =
     d\<lparr>draft.dishes :=
          map snd (filter (\<lambda>(i, dish). i \<noteq> index)
            (zip [0 ..< length (draft.dishes d)] (draft.dishes d)))\<rparr>"

definition filledDishes :: "jsstring list \<Rightarrow> jsstring list" where
  "filledDishes ds = filter (\<lambda>d. trim d \<noteq> []) ds"

definition API_URL :: "world \<Rightarrow> jsstring" where
  "API_URL w =
     (case EXPO_PUBLIC_API_URL w of
        None \<Rightarrow> js ''http://localhost:8080''
      | Some u \<Rightarrow> if u = [] then js ''http://localhost:8080'' else u)"

definition build_reviewData :: "route_params \<Rightarrow> nat \<Rightarrow> jsstring list \<Rightarrow> reviewData" where
  "build_reviewData P r filled =
     \<lparr>provider = param_provider P,
      providerId = param_providerId P,
      name = param_name P,
      address = param_address P,
      lat = coordinate (param_lat P),
      lng = coordinate (param_lng P),
      rating = r,
      review_text = [],
      dishes = filled\<rparr>"

definition post_request :: "world \<Rightarrow> session \<Rightarrow> reviewData \<Rightarrow> request" where
  "post_request w s rd =
     \<lparr>url = API_URL w @ js ''/reviews'',
      http_method = Some (js ''POST''),
      headers = [(js ''Content-Type'', js ''application/json''),
                 (js ''Authorization'', js ''Bearer '' @ access_token s)],
      body = Some rd\<rparr>"

definition server_error_text :: "response \<Rightarrow> jsstring" where
  "server_error_text r =
     js ''Server error: '' @ show_nat (status r) @ js '' '' @ statusText r"

text \<open>
  What the branch \<open>if (!response.ok)\<close> throws: the rejection of the read, the TypeError
  of \<open>errorData.message\<close>, the TypeError of the conversion inside \<open>new Error\<close>, or the
  \<open>Error\<close> built.
\<close>

definition rejection :: "response \<Rightarrow> thrown" where
  "rejection r =
     (case text_result r of
        Inl err \<Rightarrow> err
      | Inr errorText \<Rightarrow>
          (let errorData =
                 (case JSON_parse errorText of
                    Some v \<Rightarrow> v
                  | None \<Rightarrow> JObject [(js ''message'', JString errorText)])
           in case get_message errorData of
                Inl err \<Rightarrow> err
              | Inr m \<Rightarrow>
                  (case m of
                     None \<Rightarrow> Error_instance (Text (server_error_text r))
                   | Some v \<Rightarrow>
                       if ToBoolean v then
                         (case ToString v of
                            Inl err \<Rightarrow> err
                          | Inr msg \<Rightarrow> Error_instance msg)
                       else Error_instance (Text (server_error_text r)))))"

text \<open>How the \<open>try\<close> block is left: by its end, by \<open>return\<close>, or by a throw.\<close>

datatype exit = Completed | Returned | Threw thrown

definition try_block ::
  "route_params \<Rightarrow> world \<Rightarrow> jsstring list \<Rightarrow> nat \<Rightarrow> effect list \<times> exit" where
  "try_block P w filled r =
     (case getSession_result w of
        Inl err \<Rightarrow> ([GetSession], Threw err)
      | Inr reply \<Rightarrow>
          (case (reply_error reply, reply_session reply) of
             (Some e, _) \<Rightarrow>
               ([GetSession,
                 Alert_alert (js ''Error'')
                   (Text (js ''You must be logged in to submit a review'')) [],
                 SetIsSubmitting False], Returned)
           | (None, None) \<Rightarrow>
               ([GetSession,
                 Alert_alert (js ''Error'')
                   (Text (js ''You must be logged in to submit a review'')) [],
                 SetIsSubmitting False], Returned)
           | (None, Some s) \<Rightarrow>
               (let sent = [GetSession, ConsoleLog filled,
                            Fetch (post_request w s (build_reviewData P r filled))]
                in case fetch_result w of
                     Inl err \<Rightarrow> (sent, Threw err)
                   | Inr resp \<Rightarrow>
                       if \<not> ok resp then (sent, Threw (rejection resp))
                       else
                         (case json_result resp of
                            Inl err \<Rightarrow> (sent, Threw err)
                          | Inr v \<Rightarrow>
                              (sent @
                               [Alert_alert (js ''Success'')
                                  (Text (js ''Your review has been submitted!''))
                                  [Button (js ''OK'') [RouterBack]]],
                               Completed)))))"

definition catch_block :: "exit \<Rightarrow> effect list" where
  "catch_block x =
     (case x of
        Threw err \<Rightarrow>
          [Alert_alert (js ''Error'')
             (case err of
                Error_instance m \<Rightarrow> m
              | Not_an_Error \<Rightarrow> Text (js ''Failed to submit review. Please try again.''))
             []]
      | _ \<Rightarrow> [])"

text \<open>The effects of one call of \<open>handleSubmit\<close>, in order.\<close>

definition handleSubmit :: "route_params \<Rightarrow> world \<Rightarrow> draft \<Rightarrow> effect list" where
  "handleSubmit P w d =
     (let filled = filledDishes (draft.dishes d) in
      if length filled = 0 then
        [Alert_alert (js ''Missing Info'') (Text (js ''Please enter at least one dish name'')) []]
      else if draft.rating d = 0 then
        [Alert_alert (js ''Missing Info'') (Text (js ''Please rate your experience'')) []]
      else
        (case try_block P w filled (draft.rating d) of
           (effects, x) \<Rightarrow>
             SetIsSubmitting True # effects @ catch_block x @ [SetIsSubmitting False]))"

text \<open>The state setters of the form; no other effect touches the draft.\<close>

fun apply_draft :: "draft \<Rightarrow> effect \<Rightarrow> draft" where
  "apply_draft d (SetIsSubmitting b) = d\<lparr>isSubmitting := b\<rparr>"
| "apply_draft d e = d"

definition draft_after :: "draft \<Rightarrow> effect list \<Rightarrow> draft" where
  "draft_after d es = foldl apply_draft d es"

text \<open>What the run shows of itself: the requests sent, the alerts, the navigation offered.\<close>

fun is_Fetch :: "effect \<Rightarrow> bool" where
  "is_Fetch (Fetch q) = True"
| "is_Fetch e = False"

definition network_calls :: "effect list \<Rightarrow> effect list" where
  "network_calls es = filter (\<lambda>e. e = GetSession \<or> is_Fetch e) es"

fun press :: "button \<Rightarrow> nav list" where
  "press (Button label action) = action"

text \<open>The navigation signals that pressing every button of every alert once issues.\<close>

fun go_back_signals :: "effect list \<Rightarrow> nav list" where
  "go_back_signals [] = []"
| "go_back_signals (Alert_alert t m bs # es) = concat (map press bs) @ go_back_signals es"
| "go_back_signals (e # es) = go_back_signals es"

text \<open>The title and message of every alert shown, in order.\<close>

fun alerts :: "effect list \<Rightarrow> (jsstring \<times> message) list" where
  "alerts [] = []"
| "alerts (Alert_alert t m bs # es) = (t, m) # alerts es"
| "alerts (e # es) = alerts es"

text \<open>The run ended in the Success alert.\<close>

definition succeeded :: "effect list \<Rightarrow> bool" where
  "succeeded es \<longleftrightarrow> js ''Success'' \<in> fst ` set (alerts es)"

text \<open>The draft passes both validation tests of \<open>handleSubmit\<close>.\<close>

definition valid :: "draft \<Rightarrow> bool" where
  "valid d \<longleftrightarrow> (\<exists>x \<in> set (draft.dishes d). \<exists>c \<in> set x. \<not> is_trim_ws c) \<and> draft.rating d \<noteq> 0"

section \<open>The feed (\<open>HomeTab\<close>)\<close>

record feed =
  reviews :: json
  loading :: bool
  refreshing :: bool

definition initial_feed :: feed where
  "initial_feed = \<lparr>reviews = JArray [], loading = True, refreshing = False\<rparr>"

definition feed_request :: "session option \<Rightarrow> request" where
  "feed_request s =
     \<lparr>url = js ''http://localhost:8080/reviews/feed'',
      http_method = None,
      headers = [(js ''Authorization'',
                  js ''Bearer '' @ (case s of None \<Rightarrow> js ''undefined'' | Some t \<Rightarrow> access_token t))],
      body = None\<rparr>"

definition feed_try :: "world \<Rightarrow> effect list \<times> exit" where
  "feed_try w =
     (case getSession_result w of
        Inl err \<Rightarrow> ([GetSession], Threw err)
      | Inr reply \<Rightarrow>
          (let sent = [GetSession, Fetch (feed_request (reply_session reply))]
           in case fetch_result w of
                Inl err \<Rightarrow> (sent, Threw err)
              | Inr res \<Rightarrow>
                  if ok res then
                    (case json_result res of
                       Inl err \<Rightarrow> (sent, Threw err)
                     | Inr feedData \<Rightarrow> (sent @ [SetReviews feedData], Completed))
                  else (sent, Completed)))"

definition fetchFriendsReviews :: "world \<Rightarrow> effect list" where
  "fetchFriendsReviews w =
     (case feed_try w of
        (effects, x) \<Rightarrow>
          effects @ (case x of Threw err \<Rightarrow> [ConsoleError err] | _ \<Rightarrow> [])
            @ [SetLoading False, SetRefreshing False])"

definition onRefresh :: "world \<Rightarrow> effect list" where
  "onRefresh w = SetRefreshing True # fetchFriendsReviews w"

fun apply_feed :: "feed \<Rightarrow> effect \<Rightarrow> feed" where
  "apply_feed f (SetReviews v) = f\<lparr>reviews := v\<rparr>"
| "apply_feed f (SetLoading b) = f\<lparr>loading := b\<rparr>"
| "apply_feed f (SetRefreshing b) = f\<lparr>refreshing := b\<rparr>"
| "apply_feed f e = f"

definition feed_after :: "feed \<Rightarrow> effect list \<Rightarrow> feed" where
  "feed_after f es = foldl apply_feed f es"

text \<open>The feed load failed: a promise rejected, the status is not 2xx, or the body did not parse.\<close>

definition load_failed :: "world \<Rightarrow> bool" where
  "load_failed w \<longleftrightarrow>
     (case getSession_result w of
        Inl err \<Rightarrow> True
      | Inr reply \<Rightarrow>
          (case fetch_result w of
             Inl err \<Rightarrow> True
           | Inr res \<Rightarrow> \<not> ok res \<or> (case json_result res of Inl err \<Rightarrow> True | Inr v \<Rightarrow> False)))"

text \<open>
  \<open>formatDate\<close>.  The arguments are the time values in milliseconds of
  \<open>new Date(dateString)\<close> (\<open>None\<close> for an invalid date, whose time value is NaN) and
  of \<open>new Date()\<close>.  The label is a text of the program or the locale's rendering of the
  date.  Time values are integers, and the quotient of their distance by the 86400000
  milliseconds of a day lies at least \<open>1 / 86400000\<close> away from every integer it is not
  equal to, which is more than the rounding error of the double division as long as the
  distance is below \<open>2 ^ 53\<close>; a greater distance gives more than seven days either way.
  So the label is the one that the exact ceiling gives.
\<close>

datatype label = Label jsstring | LocaleDateString "int option"

definition diffDays :: "int \<Rightarrow> int \<Rightarrow> int" where
  "diffDays date now = \<lceil>real_of_int \<bar>now - date\<bar> / (1000 * 60 * 60 * 24)\<rceil>"

definition formatDate :: "int option \<Rightarrow> int \<Rightarrow> label" where
  "formatDate dateString now =
     (case dateString of
        None \<Rightarrow> LocaleDateString None
      | Some date \<Rightarrow>
          if diffDays date now = 0 then Label (js ''Today'')
          else if diffDays date now = 1 then Label (js ''Yesterday'')
          else if diffDays date now < 7 then
            Label (show_nat (nat (diffDays date now)) @ js '' days ago'')
          else LocaleDateString (Some date))"

section \<open>Example runs\<close>

text \<open>Concrete inputs on which the properties below are evaluated.\<close>

definition example_params :: route_params where
  "example_params =
     \<lparr>param_name = Some (js ''Golden Fork''), param_address = Some (js ''1 Main St''),
      param_provider = Some (js ''google''), param_providerId = Some (js ''abc123''),
      param_lat = Some (js ''40.7''), param_lng = None\<rparr>"

definition example_session :: session where
  "example_session = \<lparr>access_token = js ''tok''\<rparr>"

definition signed_in :: "thrown + session_reply" where
  "signed_in = Inr \<lparr>reply_session = Some example_session, reply_error = None\<rparr>"

definition signed_out :: "thrown + session_reply" where
  "signed_out = Inr \<lparr>reply_session = None, reply_error = None\<rparr>"

definition signed_in_with_error :: "thrown + session_reply" where
  "signed_in_with_error = Inr \<lparr>reply_session = Some example_session, reply_error = Some AuthError\<rparr>"

definition example_world :: "thrown + session_reply \<Rightarrow> thrown + response \<Rightarrow> world" where
  "example_world s f = \<lparr>EXPO_PUBLIC_API_URL = None, getSession_result = s, fetch_result = f\<rparr>"

definition example_draft :: draft where
  "example_draft =
     \<lparr>draft.dishes = [js ''Fries'', js '''', js ''  Burger  ''], draft.rating = 4,
      isSubmitting = False\<rparr>"

definition blank_draft :: draft where
  "blank_draft = \<lparr>draft.dishes = [js '''', js ''  ''], draft.rating = 4, isSubmitting = False\<rparr>"

definition unrated_draft :: draft where
  "unrated_draft = \<lparr>draft.dishes = [js ''Fries''], draft.rating = 0, isSubmitting = False\<rparr>"

definition created :: response where
  "created = \<lparr>status = 201, statusText = js ''Created'', text_result = Inr (js ''{\"id\":\"r1\"}'')\<rparr>"

definition duplicate_400 :: response where
  "duplicate_400 =
     \<lparr>status = 400, statusText = js ''Bad Request'',
      text_result = Inr (js ''{\"message\":\"Duplicate review\"}'')\<rparr>"

definition internal_500 :: response where
  "internal_500 =
     \<lparr>status = 500, statusText = js ''Internal Server Error'',
      text_result = Inr (js ''Internal error'')\<rparr>"

definition unavailable_503 :: response where
  "unavailable_503 =
     \<lparr>status = 503, statusText = js ''Service Unavailable'', text_result = Inr []\<rparr>"

definition no_content_204 :: response where
  "no_content_204 = \<lparr>status = 204, statusText = js ''No Content'', text_result = Inr []\<rparr>"

definition unconvertible_422 :: response where
  "unconvertible_422 =
     \<lparr>status = 422, statusText = js ''Unprocessable Entity'',
      text_result = Inr (js ''{\"message\":{\"toString\":1}}'')\<rparr>"

definition null_body_502 :: response where
  "null_body_502 =
     \<lparr>status = 502, statusText = js ''Bad Gateway'', text_result = Inr (js ''null'')\<rparr>"

definition example_post :: request where
  "example_post =
     \<lparr>url = js ''http://localhost:8080/reviews'',
      http_method = Some (js ''POST''),
      headers = [(js ''Content-Type'', js ''application/json''),
                 (js ''Authorization'', js ''Bearer tok'')],
      body = Some \<lparr>provider = Some (js ''google''), providerId = Some (js ''abc123''),
                   name = Some (js ''Golden Fork''), address = Some (js ''1 Main St''),
                   lat = Some (ParseFloat (js ''40.7'')), lng = None, rating = 4,
                   review_text = [], dishes = [js ''Fries'', js ''  Burger  '']\<rparr>\<rparr>"

definition stale_feed :: feed where
  "stale_feed =
     \<lparr>reviews = JArray [JObject [(js ''id'', JString (js ''r1''))]], loading = False,
      refreshing = True\<rparr>"

definition offline :: world where
  "offline =
     \<lparr>EXPO_PUBLIC_API_URL = None, getSession_result = signed_in,
      fetch_result = Inl (Error_instance (Text (js ''Network request failed'')))\<rparr>"

section \<open>The parser consumes input\<close>

lemma parse_int_part_shorter: "parse_int_part s = Some (ip, r) \<Longrightarrow> length r < length s"
  by (cases s) (auto simp: parse_int_part_def less_Suc_eq_le length_dropWhile_le split: if_splits)

lemma parse_frac_shorter: "parse_frac s = Some (fp, r) \<Longrightarrow> length r \<le> length s"
  by (cases s) (auto simp: parse_frac_def le_SucI length_dropWhile_le split: if_splits)

lemma parse_exp_digits_shorter: "parse_exp_digits neg s = Some (ex, r) \<Longrightarrow> length r \<le> length s"
  by (auto simp: parse_exp_digits_def length_dropWhile_le split: if_splits)

lemma parse_exp_shorter: "parse_exp s = Some (ex, r) \<Longrightarrow> length r \<le> length s"
proof (cases s)
  case Nil
  assume "parse_exp s = Some (ex, r)"
  with Nil show ?thesis by (simp add: parse_exp_def)
next
  case (Cons c cs)
  assume a: "parse_exp s = Some (ex, r)"
  show ?thesis
  proof (cases "c = 0x65 \<or> c = 0x45")
    case False
    with a Cons show ?thesis by (simp add: parse_exp_def)
  next
    case True
    show ?thesis
    proof (cases cs)
      case Nil
      with a Cons True show ?thesis by (simp add: parse_exp_def)
    next
      case (Cons g t)
      with a \<open>s = c # cs\<close> True
      have "parse_exp_digits False t = Some (ex, r) \<or> parse_exp_digits True t = Some (ex, r)
            \<or> parse_exp_digits False cs = Some (ex, r)"
        by (auto simp: parse_exp_def split: if_splits)
      then have "length r \<le> length cs"
        using parse_exp_digits_shorter [of False t ex r] parse_exp_digits_shorter [of True t ex r]
          parse_exp_digits_shorter [of False cs ex r] Cons
        by auto
      with \<open>s = c # cs\<close> show ?thesis by simp
    qed
  qed
qed

lemma parse_unsigned_shorter: "parse_unsigned neg s = Some (v, r) \<Longrightarrow> length r < length s"
proof -
  assume "parse_unsigned neg s = Some (v, r)"
  then obtain ip s1 fp s2 ex where "parse_int_part s = Some (ip, s1)"
    and "parse_frac s1 = Some (fp, s2)" and "parse_exp s2 = Some (ex, r)"
    by (auto simp: parse_unsigned_def split: option.splits)
  then show ?thesis
    using parse_int_part_shorter [of s ip s1] parse_frac_shorter [of s1 fp s2]
      parse_exp_shorter [of s2 ex r]
    by simp
qed

lemma parse_number_shorter: "parse_number s = Some (v, r) \<Longrightarrow> length r < length s"
  using parse_unsigned_shorter [of True "tl s" v r] parse_unsigned_shorter [of False s v r]
  by (cases s) (auto simp: parse_number_def split: if_splits)

lemma strip_prefix_shorter:
  "strip_prefix p s = Some r \<Longrightarrow> p \<noteq> [] \<Longrightarrow> length r < length s"
proof -
  assume a: "strip_prefix p s = Some r" and n: "p \<noteq> []"
  then have t: "take (length p) s = p" and r: "r = drop (length p) s"
    by (auto simp: strip_prefix_def split: if_splits)
  from t have "length (take (length p) s) = length p" by simp
  then have "length p \<le> length s" by simp
  with n r show ?thesis by (cases p) simp_all
qed

lemma parse_literal_shorter: "parse_literal s = Some (v, r) \<Longrightarrow> length r < length s"
  using strip_prefix_shorter [of "js ''true''" s r] strip_prefix_shorter [of "js ''false''" s r]
    strip_prefix_shorter [of "js ''null''" s r] parse_number_shorter [of s v r]
  by (auto simp: parse_literal_def js_def split: option.splits)

lemma parse_shorter:
  "(\<forall>v r. parse_value s = Some (v, r) \<longrightarrow> length r < length s)"
  "(\<forall>vs r. parse_elements s1 acc1 = Some (vs, r) \<longrightarrow> length r < length s1)"
  "(\<forall>ms r. parse_members s2 acc2 = Some (ms, r) \<longrightarrow> length r < length s2)"
proof (induction s and s1 acc1 and s2 acc2 rule: parse_value_parse_elements_parse_members.induct)
  case (1 s)
  show ?case
  proof (intro allI impI)
    fix v r
    assume a: "parse_value s = Some (v, r)"
    then obtain c cs where k: "skip_ws s = c # cs"
      by (cases "skip_ws s") (simp_all add: parse_value.simps)
    note l = skip_ws_Cons_shorter [OF k]
    show "length r < length s"
    proof (cases "c = 0x5B")
      case True
      from a k True obtain d ds where k2: "skip_ws cs = d # ds"
        by (cases "skip_ws cs") (simp_all add: parse_value.simps)
      show ?thesis
      proof (cases "d = 0x5D")
        case True
        with a k k2 \<open>c = 0x5B\<close> have "r = ds" by (simp add: parse_value.simps)
        with skip_ws_Cons_shorter [OF k2] l show ?thesis by simp
      next
        case False
        with a k k2 \<open>c = 0x5B\<close> obtain vs where "parse_elements cs [] = Some (vs, r)"
          by (auto simp: parse_value.simps split: option.splits)
        with "1.IH"(1) [OF k \<open>c = 0x5B\<close> k2 False] l show ?thesis by fastforce
      qed
    next
      case nb: False
      show ?thesis
      proof (cases "c = 0x7B")
        case True
        from a k nb True obtain d ds where k2: "skip_ws cs = d # ds"
          by (cases "skip_ws cs") (simp_all add: parse_value.simps)
        show ?thesis
        proof (cases "d = 0x7D")
          case True
          with a k k2 nb \<open>c = 0x7B\<close> have "r = ds" by (simp add: parse_value.simps)
          with skip_ws_Cons_shorter [OF k2] l show ?thesis by simp
        next
          case False
          with a k k2 nb \<open>c = 0x7B\<close> obtain ms where "parse_members cs [] = Some (ms, r)"
            by (auto simp: parse_value.simps split: option.splits)
          with "1.IH"(2) [OF k nb \<open>c = 0x7B\<close> k2 False] l show ?thesis by fastforce
        qed
      next
        case no: False
        show ?thesis
        proof (cases "c = 0x22")
          case True
          with a k nb no obtain str where "parse_string cs [] = Some (str, r)"
            by (auto simp: parse_value.simps split: option.splits)
          from parse_string_shorter [OF this] l show ?thesis by simp
        next
          case False
          with a k nb no have "parse_literal (c # cs) = Some (v, r)"
            by (simp add: parse_value.simps)
          from parse_literal_shorter [OF this] l show ?thesis by simp
        qed
      qed
    qed
  qed
next
  case (2 s acc)
  show ?case
  proof (intro allI impI)
    fix vs r
    assume a: "parse_elements s acc = Some (vs, r)"
    then obtain v r1 where p: "parse_value s = Some (v, r1)" and g: "length r1 < length s"
      by (auto simp: parse_elements.simps [of s acc] split: option.splits if_splits)
    from a p g obtain c cs where k: "skip_ws r1 = c # cs"
      by (cases "skip_ws r1") (simp_all add: parse_elements.simps [of s acc])
    note l = skip_ws_Cons_shorter [OF k]
    show "length r < length s"
    proof (cases "c = 0x2C")
      case True
      with a p g k have "parse_elements cs (acc @ [v]) = Some (vs, r)"
        by (simp add: parse_elements.simps [of s acc])
      with "2.IH"(2) [OF p refl g k True] have "length r < length cs" by blast
      with l g show ?thesis by simp
    next
      case False
      with a p g k have "r = cs"
        by (simp add: parse_elements.simps [of s acc] split: if_splits)
      with l g show ?thesis by simp
    qed
  qed
next
  case (3 s acc)
  show ?case
  proof (intro allI impI)
    fix ms r
    assume a: "parse_members s acc = Some (ms, r)"
    then obtain q cs where k: "skip_ws s = q # cs"
      by (cases "skip_ws s") (simp_all add: parse_members.simps [of s acc])
    from a k have q: "\<not> q \<noteq> 0x22"
      by (auto simp: parse_members.simps [of s acc] split: if_splits)
    from a k q obtain key r1 where ps: "parse_string cs [] = Some (key, r1)"
      by (auto simp: parse_members.simps [of s acc] split: option.splits)
    from a k q ps obtain colon r2 where k2: "skip_ws r1 = colon # r2"
      by (cases "skip_ws r1") (simp_all add: parse_members.simps [of s acc])
    from a k q ps k2 have co: "\<not> colon \<noteq> 0x3A"
      by (auto simp: parse_members.simps [of s acc] split: if_splits)
    from a k q ps k2 co obtain v r3 where p: "parse_value r2 = Some (v, r3)"
      and g: "length r3 < length r2"
      by (auto simp: parse_members.simps [of s acc] split: option.splits if_splits)
    from a k q ps k2 co p g obtain c r4 where k3: "skip_ws r3 = c # r4"
      by (cases "skip_ws r3") (simp_all add: parse_members.simps [of s acc])
    have l: "length r4 < length s"
      using skip_ws_Cons_shorter [OF k] skip_ws_Cons_shorter [OF k2] skip_ws_Cons_shorter [OF k3]
        parse_string_shorter [OF ps] g
      by simp
    show "length r < length s"
    proof (cases "c = 0x2C")
      case True
      with a k q ps k2 co p g k3 have "parse_members r4 (acc @ [(key, v)]) = Some (ms, r)"
        by (simp add: parse_members.simps [of s acc])
      with "3.IH"(2) [OF k q ps refl k2 co p refl g k3 True] have "length r < length r4" by blast
      with l show ?thesis by simp
    next
      case False
      with a k q ps k2 co p g k3 have "r = r4"
        by (simp add: parse_members.simps [of s acc] split: if_splits)
      with l show ?thesis by simp
    qed
  qed
qed

lemma parse_value_shorter: "parse_value s = Some (v, r) \<Longrightarrow> length r < length s"
  using parse_shorter(1) by blast

text \<open>Hence the length tests of the definition never fail.\<close>

lemma parse_elements_unguarded:
  "parse_elements s acc =
     (case parse_value s of
        None \<Rightarrow> None
      | Some (v, r) \<Rightarrow>
          (case skip_ws r of
             [] \<Rightarrow> None
           | c # cs \<Rightarrow>
               if c = 0x2C then parse_elements cs (acc @ [v])
               else if c = 0x5D then Some (acc @ [v], cs)
               else None))"
proof (cases "parse_value s")
  case None
  then show ?thesis by (simp add: parse_elements.simps [of s acc])
next
  case (Some p)
  obtain v r where p: "p = (v, r)" by (cases p)
  with Some have "length r < length s" by (simp add: parse_value_shorter)
  with Some p show ?thesis by (simp add: parse_elements.simps [of s acc])
qed

lemma parse_members_unguarded:
  "parse_members s acc =
     (case skip_ws s of
        [] \<Rightarrow> None
      | q # cs \<Rightarrow>
          if q \<noteq> 0x22 then None
          else
            (case parse_string cs [] of
               None \<Rightarrow> None
             | Some (key, r) \<Rightarrow>
                 (case skip_ws r of
                    [] \<Rightarrow> None
                  | colon # r2 \<Rightarrow>
                      if colon \<noteq> 0x3A then None
                      else
                        (case parse_value r2 of
                           None \<Rightarrow> None
                         | Some (v, r3) \<Rightarrow>
                             (case skip_ws r3 of
                                [] \<Rightarrow> None
                              | c # r4 \<Rightarrow>
                                  if c = 0x2C then parse_members r4 (acc @ [(key, v)])
                                  else if c = 0x7D then Some (acc @ [(key, v)], r4)
                                  else None)))))"
  by (simp add: parse_members.simps [of s acc] parse_value_shorter
      split: list.splits option.splits prod.splits)

section \<open>Helper lemmas\<close>

lemma trim_empty_iff: "trim x = [] \<longleftrightarrow> (\<forall>c \<in> set x. is_trim_ws c)"
proof
  assume "trim x = []"
  then have a: "\<forall>c \<in> set (dropWhile is_trim_ws x). is_trim_ws c"
    by (simp add: trim_def dropWhile_eq_Nil_conv)
  have "dropWhile is_trim_ws x = []"
  proof (rule ccontr)
    assume n: "dropWhile is_trim_ws x \<noteq> []"
    then have "\<not> is_trim_ws (hd (dropWhile is_trim_ws x))" by (rule hd_dropWhile)
    moreover from n have "hd (dropWhile is_trim_ws x) \<in> set (dropWhile is_trim_ws x)" by simp
    ultimately show False using a by blast
  qed
  then show "\<forall>c \<in> set x. is_trim_ws c" by simp
next
  assume "\<forall>c \<in> set x. is_trim_ws c"
  then show "trim x = []"
    by (auto simp: trim_def dest: set_dropWhileD)
qed

lemma filledDishes_alt:
  "filledDishes ds = filter (\<lambda>x. \<exists>c \<in> set x. \<not> is_trim_ws c) ds"
  by (simp add: filledDishes_def trim_empty_iff)

lemma filledDishes_empty_iff:
  "filledDishes ds = [] \<longleftrightarrow> (\<forall>x \<in> set ds. \<forall>c \<in> set x. is_trim_ws c)"
  by (auto simp: filledDishes_alt filter_empty_conv)


lemmas json_eval = JSON_parse_def parse_value.simps parse_elements.simps parse_members.simps
  skip_ws_def is_json_ws_def parse_literal_def strip_prefix_def parse_number_def
  parse_unsigned_def parse_int_part_def parse_frac_def parse_exp_def parse_exp_digits_def
  is_digit_def digits_val_def simple_escape_def hex4_def hex_val_def

lemmas example_defs = example_params_def example_session_def signed_in_def signed_out_def
  example_world_def example_draft_def blank_draft_def unrated_draft_def created_def
  example_post_def

lemmas more_defs = signed_in_with_error_def duplicate_400_def internal_500_def
  unavailable_503_def no_content_204_def

lemmas submit_eval = handleSubmit_def try_block_def catch_block_def rejection_def
  json_result_def ok_def post_request_def build_reviewData_def API_URL_def coordinate_def
  server_error_text_def filledDishes_alt is_trim_ws_def draft_after_def network_calls_def

lemma created_parses: "JSON_parse (js ''{\"id\":\"r1\"}'') = Some (JObject [(js ''id'', JString (js ''r1''))])"
  by (simp add: json_eval js_def)

lemma duplicate_parses:
  "JSON_parse (js ''{\"message\":\"Duplicate review\"}'')
     = Some (JObject [(js ''message'', JString (js ''Duplicate review''))])"
  by (simp add: json_eval js_def)

lemma internal_error_parses: "JSON_parse (js ''Internal error'') = None"
  by (simp add: json_eval js_def)

lemma empty_parses: "JSON_parse [] = None"
  by (simp add: json_eval)

lemma show_503: "show_nat 503 = js ''503''"
  by (simp add: show_nat.simps js_def)

lemma show_2: "show_nat 2 = js ''2''"
  by (simp add: show_nat.simps js_def)


lemma no_content_run:
  "handleSubmit example_params (example_world signed_in (Inr no_content_204)) example_draft =
     [SetIsSubmitting True, GetSession, ConsoleLog [js ''Fries'', js ''  Burger  ''],
      Fetch example_post,
      Alert_alert (js ''Error'') (EngineText JSON_SyntaxError) [],
      SetIsSubmitting False]"
  by (simp add: submit_eval example_defs more_defs empty_parses js_def Let_def)




lemma valid_example: "valid example_draft"
  by (simp add: valid_def example_draft_def js_def is_trim_ws_def)

lemma valid_run:
  assumes "valid d"
  shows "handleSubmit P w d =
           SetIsSubmitting True #
             fst (try_block P w (filledDishes (draft.dishes d)) (draft.rating d)) @
             catch_block (snd (try_block P w (filledDishes (draft.dishes d)) (draft.rating d))) @
             [SetIsSubmitting False]"
proof -
  from assms have "filledDishes (draft.dishes d) \<noteq> []" and "draft.rating d \<noteq> 0"
    by (simp_all add: valid_def filledDishes_empty_iff)
  then show ?thesis
    by (simp add: handleSubmit_def Let_def split: prod.splits)
qed

lemma try_block_no_session:
  assumes "getSession_result w = Inr reply"
    and "reply_session reply = None \<or> reply_error reply \<noteq> None"
  shows "try_block P w filled r =
           ([GetSession,
             Alert_alert (js ''Error'') (Text (js ''You must be logged in to submit a review'')) [],
             SetIsSubmitting False], Returned)"
  using assms by (auto simp: try_block_def split: option.splits)

lemma try_block_not_ok:
  assumes "getSession_result w = Inr reply" and "reply_error reply = None"
    and "reply_session reply = Some s" and "fetch_result w = Inr resp" and "\<not> ok resp"
  shows "try_block P w filled r =
           ([GetSession, ConsoleLog filled, Fetch (post_request w s (build_reviewData P r filled))],
            Threw (rejection resp))"
  using assms by (simp add: try_block_def)

lemma try_block_ok:
  assumes "getSession_result w = Inr reply" and "reply_error reply = None"
    and "reply_session reply = Some s" and "fetch_result w = Inr resp" and "ok resp"
  shows "try_block P w filled r =
           (case json_result resp of
              Inl err \<Rightarrow>
                ([GetSession, ConsoleLog filled,
                  Fetch (post_request w s (build_reviewData P r filled))], Threw err)
            | Inr v \<Rightarrow>
                ([GetSession, ConsoleLog filled,
                  Fetch (post_request w s (build_reviewData P r filled)),
                  Alert_alert (js ''Success'') (Text (js ''Your review has been submitted!''))
                    [Button (js ''OK'') [RouterBack]]], Completed))"
  using assms by (simp add: try_block_def split: sum.splits)

lemma draft_after_frame:
  "draft.dishes (draft_after d es) = draft.dishes d \<and> draft.rating (draft_after d es) = draft.rating d"
  unfolding draft_after_def
proof (induction es arbitrary: d)
  case Nil
  show ?case by simp
next
  case (Cons e es)
  have "draft.dishes (apply_draft d e) = draft.dishes d \<and> draft.rating (apply_draft d e) = draft.rating d"
    by (cases e) simp_all
  with Cons [of "apply_draft d e"] show ?case by simp
qed

lemma draft_after_last_set:
  "isSubmitting (draft_after d (es @ [SetIsSubmitting b])) = b"
  by (simp add: draft_after_def)

lemma rejection_cases:
  assumes "text_result r = Inr t" and "JSON_parse t \<noteq> Some JNull"
    and "\<forall>ms v. JSON_parse t = Some (JObject ms) \<and> map_of (rev ms) (js ''message'') = Some v
           \<longrightarrow> \<not> ToString_throws v"
  shows "rejection r =
           Error_instance
             (case JSON_parse t of
                None \<Rightarrow> if t = [] then Text (server_error_text r) else Text t
              | Some (JObject ms) \<Rightarrow>
                  (case map_of (rev ms) (js ''message'') of
                     None \<Rightarrow> Text (server_error_text r)
                   | Some v \<Rightarrow> if ToBoolean v then converted v else Text (server_error_text r))
              | Some v \<Rightarrow> Text (server_error_text r))"
proof (cases "JSON_parse t")
  case None
  then show ?thesis using assms(1) by (simp add: rejection_def ToString_def js_def)
next
  case (Some u)
  with assms(2) have n: "u \<noteq> JNull" by simp
  show ?thesis
  proof (cases u)
    case (JObject ms)
    show ?thesis
    proof (cases "map_of (rev ms) (js ''message'')")
      case None
      with assms(1) Some JObject show ?thesis by (simp add: rejection_def)
    next
      case (Some v)
      with assms(3) \<open>JSON_parse t = Some u\<close> JObject have "\<not> ToString_throws v" by blast
      with assms(1) \<open>JSON_parse t = Some u\<close> JObject Some show ?thesis
        by (simp add: rejection_def ToString_def)
    qed
  next
    case JNull
    with n show ?thesis by simp
  next
    case (JBool b)
    with assms(1) Some show ?thesis by (simp add: rejection_def)
  next
    case (JNumber m e)
    with assms(1) Some show ?thesis by (simp add: rejection_def)
  next
    case (JString s)
    with assms(1) Some show ?thesis by (simp add: rejection_def)
  next
    case (JArray vs)
    with assms(1) Some show ?thesis by (simp add: rejection_def)
  qed
qed

lemma rejected_run:
  assumes "valid d" and "getSession_result w = Inr reply" and "reply_error reply = None"
    and "reply_session reply = Some s" and "fetch_result w = Inr r" and "\<not> ok r"
  shows "handleSubmit P w d =
           [SetIsSubmitting True, GetSession, ConsoleLog (filledDishes (draft.dishes d)),
            Fetch (post_request w s
                     (build_reviewData P (draft.rating d) (filledDishes (draft.dishes d))))]
           @ catch_block (Threw (rejection r)) @ [SetIsSubmitting False]"
  by (simp add: valid_run [OF assms(1)] try_block_not_ok [OF assms(2-6)])

lemma alerts_rejected:
  assumes "valid d" and "getSession_result w = Inr reply" and "reply_error reply = None"
    and "reply_session reply = Some s" and "fetch_result w = Inr r" and "\<not> ok r"
    and "rejection r = Error_instance m"
  shows "alerts (handleSubmit P w d) = [(js ''Error'', m)]"
  by (simp add: rejected_run [OF assms(1-6)] assms(7) catch_block_def)

lemma signed_in_world:
  "getSession_result (example_world signed_in f)
     = Inr \<lparr>reply_session = Some example_session, reply_error = None\<rparr>"
  "fetch_result (example_world s f) = f"
  by (simp_all add: example_world_def signed_in_def)

lemma duplicate_run:
  "alerts (handleSubmit example_params (example_world signed_in (Inr duplicate_400)) example_draft)
     = [(js ''Error'', Text (js ''Duplicate review''))]"
proof -
  have n: "\<not> ok duplicate_400" by (simp add: ok_def duplicate_400_def)
  have r: "rejection duplicate_400 = Error_instance (Text (js ''Duplicate review''))"
    by (simp add: rejection_def ToString_def duplicate_400_def duplicate_parses)
       (simp add: js_def)
  show ?thesis
    by (rule alerts_rejected [OF valid_example signed_in_world(1) _ _ signed_in_world(2) n r]) simp_all
qed

lemma internal_run:
  "alerts (handleSubmit example_params (example_world signed_in (Inr internal_500)) example_draft)
     = [(js ''Error'', Text (js ''Internal error''))]"
proof -
  have n: "\<not> ok internal_500" by (simp add: ok_def internal_500_def)
  have r: "rejection internal_500 = Error_instance (Text (js ''Internal error''))"
    by (simp add: rejection_def ToString_def internal_500_def internal_error_parses)
       (simp add: js_def)
  show ?thesis
    by (rule alerts_rejected [OF valid_example signed_in_world(1) _ _ signed_in_world(2) n r]) simp_all
qed

lemma unavailable_run:
  "alerts (handleSubmit example_params (example_world signed_in (Inr unavailable_503)) example_draft)
     = [(js ''Error'', Text (js ''Server error: 503 Service Unavailable''))]"
proof -
  have n: "\<not> ok unavailable_503" by (simp add: ok_def unavailable_503_def)
  have t: "text_result unavailable_503 = Inr []" by (simp add: unavailable_503_def)
  have r: "rejection unavailable_503
             = Error_instance (Text (js ''Server error: 503 Service Unavailable''))"
    by (simp add: rejection_def t empty_parses server_error_text_def)
       (simp add: unavailable_503_def show_503 js_def)
  show ?thesis
    by (rule alerts_rejected [OF valid_example signed_in_world(1) _ _ signed_in_world(2) n r]) simp_all
qed

text \<open>
  Two bodies on which the alert shows an error of the engine: a \<open>message\<close> that is an
  object with a member \<open>toString\<close>, and the body \<open>null\<close>.
\<close>

lemma unconvertible_parses:
  "JSON_parse (js ''{\"message\":{\"toString\":1}}'')
     = Some (JObject [(js ''message'', JObject [(js ''toString'', JNumber 1 0)])])"
  by (simp add: json_eval js_def)

lemma unconvertible_run:
  "alerts (handleSubmit example_params (example_world signed_in (Inr unconvertible_422)) example_draft)
     = [(js ''Error'', EngineText ToPrimitive_TypeError)]"
proof -
  have n: "\<not> ok unconvertible_422" by (simp add: ok_def unconvertible_422_def)
  have r: "rejection unconvertible_422 = Error_instance (EngineText ToPrimitive_TypeError)"
    by (simp add: rejection_def ToString_def unconvertible_422_def unconvertible_parses)
  show ?thesis
    by (rule alerts_rejected [OF valid_example signed_in_world(1) _ _ signed_in_world(2) n r]) simp_all
qed

lemma null_parses: "JSON_parse (js ''null'') = Some JNull"
  by (simp add: json_eval js_def)

lemma null_body_run:
  "alerts (handleSubmit example_params (example_world signed_in (Inr null_body_502)) example_draft)
     = [(js ''Error'', EngineText Null_Property_TypeError)]"
proof -
  have n: "\<not> ok null_body_502" by (simp add: ok_def null_body_502_def)
  have r: "rejection null_body_502 = Error_instance (EngineText Null_Property_TypeError)"
    by (simp add: rejection_def null_body_502_def null_parses)
  show ?thesis
    by (rule alerts_rejected [OF valid_example signed_in_world(1) _ _ signed_in_world(2) n r]) simp_all
qed

lemma ok_run:
  assumes "valid d" and "getSession_result w = Inr reply" and "reply_error reply = None"
    and "reply_session reply = Some s" and "fetch_result w = Inr r" and "ok r"
  shows "handleSubmit P w d =
           (case json_result r of
              Inl err \<Rightarrow>
                [SetIsSubmitting True, GetSession, ConsoleLog (filledDishes (draft.dishes d)),
                 Fetch (post_request w s
                          (build_reviewData P (draft.rating d) (filledDishes (draft.dishes d))))]
                @ catch_block (Threw err) @ [SetIsSubmitting False]
            | Inr v \<Rightarrow>
                [SetIsSubmitting True, GetSession, ConsoleLog (filledDishes (draft.dishes d)),
                 Fetch (post_request w s
                          (build_reviewData P (draft.rating d) (filledDishes (draft.dishes d)))),
                 Alert_alert (js ''Success'') (Text (js ''Your review has been submitted!''))
                   [Button (js ''OK'') [RouterBack]],
                 SetIsSubmitting False])"
  by (simp add: valid_run [OF assms(1)] try_block_ok [OF assms(2-6)] catch_block_def
      split: sum.splits)

lemma valid_isSubmitting:
  "valid d \<Longrightarrow> \<not> isSubmitting (draft_after d (handleSubmit P w d))"
proof -
  assume v: "valid d"
  have "handleSubmit P w d =
          (SetIsSubmitting True #
             fst (try_block P w (filledDishes (draft.dishes d)) (draft.rating d)) @
             catch_block (snd (try_block P w (filledDishes (draft.dishes d)) (draft.rating d))))
          @ [SetIsSubmitting False]"
    by (simp add: valid_run [OF v])
  then show ?thesis by (simp only: draft_after_last_set) simp
qed

lemma invalid_run:
  "\<not> valid d \<Longrightarrow> draft_after d (handleSubmit P w d) = d"
proof -
  assume "\<not> valid d"
  then have "filledDishes (draft.dishes d) = [] \<or> draft.rating d = 0"
    by (auto simp: valid_def filledDishes_empty_iff)
  then show ?thesis
    by (auto simp: handleSubmit_def Let_def draft_after_def)
qed

lemma feed_after_append: "feed_after f (xs @ ys) = feed_after (feed_after f xs) ys"
  by (simp add: feed_after_def)

lemma fetch_clears_flags:
  "\<not> loading (feed_after f (fetchFriendsReviews w)) \<and> \<not> refreshing (feed_after f (fetchFriendsReviews w))"
proof -
  obtain es x where t: "feed_try w = (es, x)" by (cases "feed_try w")
  have "fetchFriendsReviews w =
          (es @ (case x of Threw err \<Rightarrow> [ConsoleError err] | _ \<Rightarrow> []))
          @ [SetLoading False, SetRefreshing False]"
    by (simp add: fetchFriendsReviews_def t)
  then show ?thesis by (simp only: feed_after_append) (simp add: feed_after_def)
qed

lemma failed_feed_try:
  assumes "load_failed w"
  shows "\<exists>es x. feed_try w = (es, x) \<and> set es \<subseteq> {GetSession} \<union> range Fetch"
  using assms
  by (auto simp: load_failed_def feed_try_def Let_def split: sum.splits)

lemma reviews_kept:
  "set es \<subseteq> {GetSession, SetLoading False, SetRefreshing False, SetRefreshing True}
      \<union> range Fetch \<union> range ConsoleError
   \<Longrightarrow> reviews (feed_after f es) = reviews f \<and> alerts es = []"
  unfolding feed_after_def
proof (induction es arbitrary: f)
  case Nil
  show ?case by simp
next
  case (Cons e es)
  then have e: "reviews (apply_feed f e) = reviews f" and a: "alerts (e # es) = alerts es"
    by auto
  from Cons.IH [of "apply_feed f e"] Cons.prems e a show ?case by simp
qed

lemma failed_fetch_effects:
  assumes "load_failed w"
  shows "set (fetchFriendsReviews w) \<subseteq>
           {GetSession, SetLoading False, SetRefreshing False, SetRefreshing True}
             \<union> range Fetch \<union> range ConsoleError"
proof -
  from failed_feed_try [OF assms] obtain es x
    where t: "feed_try w = (es, x)" and s: "set es \<subseteq> {GetSession} \<union> range Fetch"
    by blast
  show ?thesis using s by (cases x) (auto simp: fetchFriendsReviews_def t)
qed

lemma diffDays_eq_iff:
  "diffDays date now = N \<longleftrightarrow> (N - 1) * 86400000 < \<bar>now - date\<bar> \<and> \<bar>now - date\<bar> \<le> N * 86400000"
proof -
  have "diffDays date now = N \<longleftrightarrow>
          real_of_int N - 1 < real_of_int \<bar>now - date\<bar> / 86400000
          \<and> real_of_int \<bar>now - date\<bar> / 86400000 \<le> real_of_int N"
    by (simp add: diffDays_def ceiling_eq_iff)
  also have "\<dots> \<longleftrightarrow> real_of_int ((N - 1) * 86400000) < real_of_int \<bar>now - date\<bar>
          \<and> real_of_int \<bar>now - date\<bar> \<le> real_of_int (N * 86400000)"
    by (simp add: pos_less_divide_eq pos_divide_le_eq)
  also have "\<dots> \<longleftrightarrow> (N - 1) * 86400000 < \<bar>now - date\<bar> \<and> \<bar>now - date\<bar> \<le> N * 86400000"
    by (simp only: of_int_less_iff of_int_le_iff)
  finally show ?thesis .
qed

lemma diffDays_nonneg: "0 \<le> diffDays date now"
  by (simp add: diffDays_def)

section \<open>Properties of the review form\<close>



text \<open>
  C2.  When every dish slot is empty or whitespace only, \<open>handleSubmit\<close> shows the
  "Please enter at least one dish name" alert (EmptyDishList) and does nothing else:
  neither the session lookup nor the POST is attempted, and the draft is as before.
\<close>

theorem blank_dishes_rejected:
  "\<forall>x \<in> set (draft.dishes d). \<forall>c \<in> set x. is_trim_ws c \<Longrightarrow>
     handleSubmit P w d =
       [Alert_alert (js ''Missing Info'') (Text (js ''Please enter at least one dish name'')) []]
     \<and> network_calls (handleSubmit P w d) = []
     \<and> draft_after d (handleSubmit P w d) = d"
proof -
  assume "\<forall>x \<in> set (draft.dishes d). \<forall>c \<in> set x. is_trim_ws c"
  then have e: "filledDishes (draft.dishes d) = []" by (simp add: filledDishes_empty_iff)
  have h: "handleSubmit P w d =
       [Alert_alert (js ''Missing Info'') (Text (js ''Please enter at least one dish name'')) []]"
    by (simp add: handleSubmit_def e)
  show ?thesis by (simp add: h network_calls_def draft_after_def)
qed

text \<open>C2 on the dish list \<open>["", "  "]\<close>.\<close>

theorem blank_dishes_rejected_witness:
  "draft.dishes blank_draft = [js '''', js ''  '']
   \<and> handleSubmit example_params (example_world signed_in (Inr created)) blank_draft =
       [Alert_alert (js ''Missing Info'') (Text (js ''Please enter at least one dish name'')) []]
   \<and> network_calls (handleSubmit example_params (example_world signed_in (Inr created)) blank_draft) = []"
proof -
  have b: "\<forall>x \<in> set (draft.dishes blank_draft). \<forall>c \<in> set x. is_trim_ws c"
    by (simp add: blank_draft_def js_def is_trim_ws_def)
  have d: "draft.dishes blank_draft = [js '''', js ''  '']"
    by (simp add: blank_draft_def)
  from blank_dishes_rejected [OF b, of example_params "example_world signed_in (Inr created)"] d
  show ?thesis by blast
qed

text \<open>
  C3.  With at least one non-blank dish and rating 0, \<open>handleSubmit\<close> shows the
  "Please rate your experience" alert (NoRating) and does nothing else: no session lookup
  and no request.
\<close>

theorem unrated_rejected:
  "\<exists>x \<in> set (draft.dishes d). \<exists>c \<in> set x. \<not> is_trim_ws c \<Longrightarrow> draft.rating d = 0 \<Longrightarrow>
     handleSubmit P w d =
       [Alert_alert (js ''Missing Info'') (Text (js ''Please rate your experience'')) []]
     \<and> network_calls (handleSubmit P w d) = []
     \<and> draft_after d (handleSubmit P w d) = d"
proof -
  assume "\<exists>x \<in> set (draft.dishes d). \<exists>c \<in> set x. \<not> is_trim_ws c" and r: "draft.rating d = 0"
  then have e: "filledDishes (draft.dishes d) \<noteq> []" by (simp add: filledDishes_empty_iff)
  have h: "handleSubmit P w d =
       [Alert_alert (js ''Missing Info'') (Text (js ''Please rate your experience'')) []]"
    by (simp add: handleSubmit_def e r)
  show ?thesis by (simp add: h network_calls_def draft_after_def)
qed

text \<open>C3 on the dish list \<open>["Fries"]\<close> with rating 0.\<close>

theorem unrated_rejected_witness:
  "(\<exists>x \<in> set (draft.dishes unrated_draft). \<exists>c \<in> set x. \<not> is_trim_ws c)
   \<and> draft.rating unrated_draft = 0
   \<and> handleSubmit example_params (example_world signed_in (Inr created)) unrated_draft =
       [Alert_alert (js ''Missing Info'') (Text (js ''Please rate your experience'')) []]
   \<and> network_calls (handleSubmit example_params (example_world signed_in (Inr created)) unrated_draft) = []"
proof -
  have b: "\<exists>x \<in> set (draft.dishes unrated_draft). \<exists>c \<in> set x. \<not> is_trim_ws c"
    by (simp add: unrated_draft_def js_def is_trim_ws_def)
  have r: "draft.rating unrated_draft = 0" by (simp add: unrated_draft_def)
  from unrated_rejected [OF b r, of example_params "example_world signed_in (Inr created)"] b r
  show ?thesis by blast
qed

text \<open>
  C4.  With valid dishes and a rating, when the session lookup returns no session or
  returns an error, \<open>handleSubmit\<close> shows the "You must be logged in" alert
  (NotAuthenticated), sends no POST, and leaves the draft as it was with
  \<open>isSubmitting\<close> false (back to Editing).
\<close>

theorem missing_session_rejected:
  assumes "\<exists>x \<in> set (draft.dishes d). \<exists>c \<in> set x. \<not> is_trim_ws c" and "draft.rating d \<noteq> 0"
    and "getSession_result w = Inr reply"
    and "reply_session reply = None \<or> reply_error reply \<noteq> None"
  shows "handleSubmit P w d =
           [SetIsSubmitting True, GetSession,
            Alert_alert (js ''Error'') (Text (js ''You must be logged in to submit a review'')) [],
            SetIsSubmitting False, SetIsSubmitting False]
         \<and> filter is_Fetch (handleSubmit P w d) = []
         \<and> draft_after d (handleSubmit P w d) = d\<lparr>isSubmitting := False\<rparr>"
proof -
  from assms(1,2) have v: "valid d" by (simp add: valid_def)
  have h: "handleSubmit P w d =
           [SetIsSubmitting True, GetSession,
            Alert_alert (js ''Error'') (Text (js ''You must be logged in to submit a review'')) [],
            SetIsSubmitting False, SetIsSubmitting False]"
    by (simp add: valid_run [OF v] try_block_no_session [OF assms(3,4)] catch_block_def)
  show ?thesis by (simp add: h draft_after_def)
qed

text \<open>C4 on a reply without a session, and on a reply that carries an error.\<close>

theorem missing_session_rejected_witness:
  "handleSubmit example_params (example_world signed_out (Inr created)) example_draft =
     [SetIsSubmitting True, GetSession,
      Alert_alert (js ''Error'') (Text (js ''You must be logged in to submit a review'')) [],
      SetIsSubmitting False, SetIsSubmitting False]
   \<and> filter is_Fetch
        (handleSubmit example_params (example_world signed_in_with_error (Inr created)) example_draft) = []"
proof -
  have a: "\<exists>x \<in> set (draft.dishes example_draft). \<exists>c \<in> set x. \<not> is_trim_ws c"
    and b: "draft.rating example_draft \<noteq> 0"
    using valid_example by (simp_all add: valid_def)
  have s1: "getSession_result (example_world signed_out (Inr created))
              = Inr \<lparr>reply_session = None, reply_error = None\<rparr>"
    by (simp add: example_world_def signed_out_def)
  have s2: "getSession_result (example_world signed_in_with_error (Inr created))
              = Inr \<lparr>reply_session = Some example_session, reply_error = Some AuthError\<rparr>"
    by (simp add: example_world_def signed_in_with_error_def)
  from missing_session_rejected [OF a b s1, of example_params] missing_session_rejected [OF a b s2, of example_params]
  show ?thesis by simp
qed

text \<open>
  C5 as stated fails on an empty body: the text does not parse as JSON, yet the alert
  shows the generic message and not the raw (empty) text, because an empty message falls
  through \<open>||\<close> to the fallback.
\<close>

theorem server_rejection_message_counterexample:
  "\<not> ok unavailable_503
   \<and> text_result unavailable_503 = Inr []
   \<and> JSON_parse [] = None
   \<and> alerts (handleSubmit example_params (example_world signed_in (Inr unavailable_503)) example_draft)
       = [(js ''Error'', Text (js ''Server error: 503 Service Unavailable''))]
   \<and> Text (js ''Server error: 503 Service Unavailable'') \<noteq> Text []"
proof -
  have n: "\<not> ok unavailable_503" by (simp add: ok_def unavailable_503_def)
  have t: "text_result unavailable_503 = Inr []" by (simp add: unavailable_503_def)
  have d: "Text (js ''Server error: 503 Service Unavailable'') \<noteq> Text []"
    by (simp add: js_def)
  from n t empty_parses unavailable_run d show ?thesis by blast
qed

text \<open>
  C5, amended.  For a non-success response to the POST whose body text was read, does not
  parse to \<open>null\<close>, and does not parse to an object whose \<open>message\<close> member has a string
  conversion that throws, the alert shows: the last \<open>message\<close> member of the parsed object
  when it is truthy (converted to a string when it is not one); the raw text when it does
  not parse as JSON and is not empty; and the generic "Server error: status statusText" in
  every other case (an empty body, an object without a truthy message, an array, a string,
  a number, a boolean).  A 400 with body \<open>{"message":"Duplicate review"}\<close> shows
  "Duplicate review"; a 500 with body \<open>Internal error\<close> shows "Internal error".
\<close>

theorem server_rejection_message:
  "((\<exists>x \<in> set (draft.dishes d). \<exists>c \<in> set x. \<not> is_trim_ws c) \<and> draft.rating d \<noteq> 0
      \<and> getSession_result w = Inr reply \<and> reply_error reply = None \<and> reply_session reply = Some s
      \<and> fetch_result w = Inr r \<and> \<not> ok r \<and> text_result r = Inr t \<and> JSON_parse t \<noteq> Some JNull
      \<and> (\<forall>ms v. JSON_parse t = Some (JObject ms) \<and> map_of (rev ms) (js ''message'') = Some v
             \<longrightarrow> \<not> ToString_throws v)
    \<longrightarrow> alerts (handleSubmit P w d) =
          [(js ''Error'',
            (case JSON_parse t of
               None \<Rightarrow> if t = [] then Text (server_error_text r) else Text t
             | Some (JObject ms) \<Rightarrow>
                 (case map_of (rev ms) (js ''message'') of
                    None \<Rightarrow> Text (server_error_text r)
                  | Some v \<Rightarrow> if ToBoolean v then converted v else Text (server_error_text r))
             | Some v \<Rightarrow> Text (server_error_text r)))])
   \<and> alerts (handleSubmit example_params (example_world signed_in (Inr duplicate_400)) example_draft)
       = [(js ''Error'', Text (js ''Duplicate review''))]
   \<and> alerts (handleSubmit example_params (example_world signed_in (Inr internal_500)) example_draft)
       = [(js ''Error'', Text (js ''Internal error''))]"
proof (intro conjI impI)
  assume a: "(\<exists>x \<in> set (draft.dishes d). \<exists>c \<in> set x. \<not> is_trim_ws c) \<and> draft.rating d \<noteq> 0
      \<and> getSession_result w = Inr reply \<and> reply_error reply = None \<and> reply_session reply = Some s
      \<and> fetch_result w = Inr r \<and> \<not> ok r \<and> text_result r = Inr t \<and> JSON_parse t \<noteq> Some JNull
      \<and> (\<forall>ms v. JSON_parse t = Some (JObject ms) \<and> map_of (rev ms) (js ''message'') = Some v
             \<longrightarrow> \<not> ToString_throws v)"
  then have v: "valid d" by (simp add: valid_def)
  from a have g: "getSession_result w = Inr reply" "reply_error reply = None"
    "reply_session reply = Some s" "fetch_result w = Inr r" "\<not> ok r"
    and t: "text_result r = Inr t" "JSON_parse t \<noteq> Some JNull"
    by simp_all
  from a have c: "\<forall>ms v. JSON_parse t = Some (JObject ms)
                    \<and> map_of (rev ms) (js ''message'') = Some v
         \<longrightarrow> \<not> ToString_throws v"
    by (elim conjE)
  show "alerts (handleSubmit P w d) =
          [(js ''Error'',
            (case JSON_parse t of
               None \<Rightarrow> if t = [] then Text (server_error_text r) else Text t
             | Some (JObject ms) \<Rightarrow>
                 (case map_of (rev ms) (js ''message'') of
                    None \<Rightarrow> Text (server_error_text r)
                  | Some v \<Rightarrow> if ToBoolean v then converted v else Text (server_error_text r))
             | Some v \<Rightarrow> Text (server_error_text r)))]"
    by (rule alerts_rejected [OF v g rejection_cases [OF t c]])
next
  show "alerts (handleSubmit example_params (example_world signed_in (Inr duplicate_400)) example_draft)
       = [(js ''Error'', Text (js ''Duplicate review''))]"
    by (rule duplicate_run)
next
  show "alerts (handleSubmit example_params (example_world signed_in (Inr internal_500)) example_draft)
       = [(js ''Error'', Text (js ''Internal error''))]"
    by (rule internal_run)
qed

text \<open>C5 on the 400 response, through the general case.\<close>

theorem server_rejection_message_witness:
  "\<not> ok duplicate_400
   \<and> JSON_parse (js ''{\"message\":\"Duplicate review\"}'')
       = Some (JObject [(js ''message'', JString (js ''Duplicate review''))])
   \<and> alerts (handleSubmit example_params (example_world signed_in (Inr duplicate_400)) example_draft)
       = [(js ''Error'', Text (js ''Duplicate review''))]"
proof -
  have v: "(\<exists>x \<in> set (draft.dishes example_draft). \<exists>c \<in> set x. \<not> is_trim_ws c)
           \<and> draft.rating example_draft \<noteq> 0"
    using valid_example by (simp add: valid_def)
  have n: "\<not> ok duplicate_400" by (simp add: ok_def duplicate_400_def)
  have t: "text_result duplicate_400 = Inr (js ''{\"message\":\"Duplicate review\"}'')"
    by (simp add: duplicate_400_def)
  have p: "JSON_parse (js ''{\"message\":\"Duplicate review\"}'') \<noteq> Some JNull"
    by (simp add: duplicate_parses)
  have m: "map_of (rev [(js ''message'', JString (js ''Duplicate review''))]) (js ''message'')
             = Some (JString (js ''Duplicate review''))"
    by simp
  have e: "js ''Duplicate review'' \<noteq> []" by (simp add: js_def)
  have c: "\<forall>ms v. JSON_parse (js ''{\"message\":\"Duplicate review\"}'') = Some (JObject ms)
                  \<and> map_of (rev ms) (js ''message'') = Some v
             \<longrightarrow> \<not> ToString_throws v"
    by (auto simp: duplicate_parses)
  have hyp: "(\<exists>x \<in> set (draft.dishes example_draft). \<exists>c \<in> set x. \<not> is_trim_ws c)
      \<and> draft.rating example_draft \<noteq> 0
      \<and> getSession_result (example_world signed_in (Inr duplicate_400))
          = Inr \<lparr>reply_session = Some example_session, reply_error = None\<rparr>
      \<and> reply_error \<lparr>reply_session = Some example_session, reply_error = None\<rparr> = None
      \<and> reply_session \<lparr>reply_session = Some example_session, reply_error = None\<rparr>
          = Some example_session
      \<and> fetch_result (example_world signed_in (Inr duplicate_400)) = Inr duplicate_400
      \<and> \<not> ok duplicate_400
      \<and> text_result duplicate_400 = Inr (js ''{\"message\":\"Duplicate review\"}'')
      \<and> JSON_parse (js ''{\"message\":\"Duplicate review\"}'') \<noteq> Some JNull
      \<and> (\<forall>ms v. JSON_parse (js ''{\"message\":\"Duplicate review\"}'') = Some (JObject ms)
                  \<and> map_of (rev ms) (js ''message'') = Some v
             \<longrightarrow> \<not> ToString_throws v)"
    using v n t p c signed_in_world by simp
  from server_rejection_message [of example_draft "example_world signed_in (Inr duplicate_400)"
      "\<lparr>reply_session = Some example_session, reply_error = None\<rparr>" example_session
      duplicate_400 "js ''{\"message\":\"Duplicate review\"}''" example_params,
      THEN conjunct1, THEN mp, OF hyp]
  have "alerts (handleSubmit example_params (example_world signed_in (Inr duplicate_400)) example_draft)
       = [(js ''Error'', Text (js ''Duplicate review''))]"
    by (simp add: duplicate_parses m e)
  with n duplicate_parses show ?thesis by blast
qed

text \<open>
  C6.  After a run of \<open>handleSubmit\<close> that does not end in the Success alert (a validation
  rejection, a missing session, a server rejection, a transport failure), the draft holds
  the dishes and the rating it held before.
\<close>

theorem failure_keeps_draft:
  "\<not> succeeded (handleSubmit P w d) \<Longrightarrow>
     draft.dishes (draft_after d (handleSubmit P w d)) = draft.dishes d
     \<and> draft.rating (draft_after d (handleSubmit P w d)) = draft.rating d"
  by (rule draft_after_frame)

text \<open>C6 on a run that the server rejects with a 503.\<close>

theorem failure_keeps_draft_witness:
  "\<not> succeeded
       (handleSubmit example_params (example_world signed_in (Inr unavailable_503)) example_draft)
   \<and> draft.dishes
        (draft_after example_draft
           (handleSubmit example_params (example_world signed_in (Inr unavailable_503)) example_draft))
       = [js ''Fries'', js '''', js ''  Burger  '']
   \<and> draft.rating
        (draft_after example_draft
           (handleSubmit example_params (example_world signed_in (Inr unavailable_503)) example_draft))
       = 4"
proof -
  have n: "\<not> ok unavailable_503" by (simp add: ok_def unavailable_503_def)
  have "alerts (handleSubmit example_params (example_world signed_in (Inr unavailable_503)) example_draft)
          = [(js ''Error'', Text (js ''Server error: 503 Service Unavailable''))]"
    by (rule unavailable_run)
  then have f: "\<not> succeeded
       (handleSubmit example_params (example_world signed_in (Inr unavailable_503)) example_draft)"
    by (simp add: succeeded_def js_def)
  from failure_keeps_draft [OF f] f show ?thesis by (simp add: example_draft_def)
qed

text \<open>
  C7 as stated fails on a 2xx response without a JSON body (a 204 with an empty body):
  \<open>response.json()\<close> throws, the Error alert is shown, and no alert offers the way back.
\<close>

theorem isSubmitting_cleared_counterexample:
  "ok no_content_204
   \<and> go_back_signals
        (handleSubmit example_params (example_world signed_in (Inr no_content_204)) example_draft) = []
   \<and> alerts (handleSubmit example_params (example_world signed_in (Inr no_content_204)) example_draft)
       = [(js ''Error'', EngineText JSON_SyntaxError)]"
  by (simp add: no_content_run) (simp add: ok_def no_content_204_def)

text \<open>
  C7, amended.  A run started with \<open>isSubmitting\<close> false ends with it false on every
  path; a run that passes validation ends with it false whatever it was (the fast-fail
  rejections do not touch it); and on a 2xx response whose body parses as JSON the only
  alert is the Success alert, whose single button issues exactly one "go back" when
  pressed.
\<close>

theorem isSubmitting_cleared:
  "(\<not> isSubmitting d \<longrightarrow> \<not> isSubmitting (draft_after d (handleSubmit P w d)))
   \<and> ((\<exists>x \<in> set (draft.dishes d). \<exists>c \<in> set x. \<not> is_trim_ws c) \<and> draft.rating d \<noteq> 0
        \<longrightarrow> \<not> isSubmitting (draft_after d (handleSubmit P w d)))
   \<and> ((\<exists>x \<in> set (draft.dishes d). \<exists>c \<in> set x. \<not> is_trim_ws c) \<and> draft.rating d \<noteq> 0
        \<and> getSession_result w = Inr reply \<and> reply_error reply = None \<and> reply_session reply = Some s
        \<and> fetch_result w = Inr r \<and> ok r \<and> text_result r = Inr t \<and> JSON_parse t \<noteq> None
        \<longrightarrow> alerts (handleSubmit P w d)
              = [(js ''Success'', Text (js ''Your review has been submitted!''))]
            \<and> go_back_signals (handleSubmit P w d) = [RouterBack])"
proof (intro conjI impI)
  assume "\<not> isSubmitting d"
  then show "\<not> isSubmitting (draft_after d (handleSubmit P w d))"
    using valid_isSubmitting [of d P w] invalid_run [of d P w] by (cases "valid d") simp_all
next
  assume "(\<exists>x \<in> set (draft.dishes d). \<exists>c \<in> set x. \<not> is_trim_ws c) \<and> draft.rating d \<noteq> 0"
  then have "valid d" by (simp add: valid_def)
  then show "\<not> isSubmitting (draft_after d (handleSubmit P w d))" by (rule valid_isSubmitting)
next
  assume a: "(\<exists>x \<in> set (draft.dishes d). \<exists>c \<in> set x. \<not> is_trim_ws c) \<and> draft.rating d \<noteq> 0
        \<and> getSession_result w = Inr reply \<and> reply_error reply = None \<and> reply_session reply = Some s
        \<and> fetch_result w = Inr r \<and> ok r \<and> text_result r = Inr t \<and> JSON_parse t \<noteq> None"
  then have v: "valid d" by (simp add: valid_def)
  from a have g: "getSession_result w = Inr reply" "reply_error reply = None"
    "reply_session reply = Some s" "fetch_result w = Inr r" "ok r"
    by simp_all
  from a obtain u where "json_result r = Inr u" by (auto simp: json_result_def)
  then have h: "handleSubmit P w d =
                [SetIsSubmitting True, GetSession, ConsoleLog (filledDishes (draft.dishes d)),
                 Fetch (post_request w s
                          (build_reviewData P (draft.rating d) (filledDishes (draft.dishes d)))),
                 Alert_alert (js ''Success'') (Text (js ''Your review has been submitted!''))
                   [Button (js ''OK'') [RouterBack]],
                 SetIsSubmitting False]"
    by (simp add: ok_run [OF v g])
  show "alerts (handleSubmit P w d) = [(js ''Success'', Text (js ''Your review has been submitted!''))]"
    by (simp add: h)
  show "go_back_signals (handleSubmit P w d) = [RouterBack]"
    by (simp add: h)
qed

text \<open>C7 on the run that the server answers with 201 and a JSON body.\<close>

theorem isSubmitting_cleared_witness:
  "\<not> isSubmitting
       (draft_after example_draft
          (handleSubmit example_params (example_world signed_in (Inr created)) example_draft))
   \<and> go_back_signals
        (handleSubmit example_params (example_world signed_in (Inr created)) example_draft)
       = [RouterBack]"
proof -
  have v: "(\<exists>x \<in> set (draft.dishes example_draft). \<exists>c \<in> set x. \<not> is_trim_ws c)
           \<and> draft.rating example_draft \<noteq> 0"
    using valid_example by (simp add: valid_def)
  have k: "ok created" by (simp add: ok_def created_def)
  have t: "text_result created = Inr (js ''{\"id\":\"r1\"}'')" by (simp add: created_def)
  have p: "JSON_parse (js ''{\"id\":\"r1\"}'') \<noteq> None" by (simp add: created_parses)
  have hyp: "(\<exists>x \<in> set (draft.dishes example_draft). \<exists>c \<in> set x. \<not> is_trim_ws c)
      \<and> draft.rating example_draft \<noteq> 0
      \<and> getSession_result (example_world signed_in (Inr created))
          = Inr \<lparr>reply_session = Some example_session, reply_error = None\<rparr>
      \<and> reply_error \<lparr>reply_session = Some example_session, reply_error = None\<rparr> = None
      \<and> reply_session \<lparr>reply_session = Some example_session, reply_error = None\<rparr>
          = Some example_session
      \<and> fetch_result (example_world signed_in (Inr created)) = Inr created
      \<and> ok created
      \<and> text_result created = Inr (js ''{\"id\":\"r1\"}'')
      \<and> JSON_parse (js ''{\"id\":\"r1\"}'') \<noteq> None"
    using v k t p signed_in_world by simp
  note c = isSubmitting_cleared [of example_draft example_params "example_world signed_in (Inr created)"
      "\<lparr>reply_session = Some example_session, reply_error = None\<rparr>" example_session
      created "js ''{\"id\":\"r1\"}''"]
  have i: "\<not> isSubmitting
       (draft_after example_draft
          (handleSubmit example_params (example_world signed_in (Inr created)) example_draft))"
    by (rule c [THEN conjunct2, THEN conjunct1, THEN mp, OF v])
  have g: "go_back_signals
        (handleSubmit example_params (example_world signed_in (Inr created)) example_draft)
       = [RouterBack]"
    by (rule c [THEN conjunct2, THEN conjunct2, THEN mp, OF hyp, THEN conjunct2])
  from i g show ?thesis by blast
qed

text \<open>
  C10.  When the POST is answered with a 2xx status and a body that is not valid JSON,
  the run ends as a failure: the request was sent, the parse error is caught and shown in
  the Error alert, there is no Success alert and no way back is offered.
\<close>

theorem unparsable_success_body_fails:
  assumes "\<exists>x \<in> set (draft.dishes d). \<exists>c \<in> set x. \<not> is_trim_ws c" and "draft.rating d \<noteq> 0"
    and "getSession_result w = Inr reply" and "reply_error reply = None"
    and "reply_session reply = Some s"
    and "fetch_result w = Inr r" and "ok r" and "text_result r = Inr t" and "JSON_parse t = None"
  shows "handleSubmit P w d =
           [SetIsSubmitting True, GetSession, ConsoleLog (filledDishes (draft.dishes d)),
            Fetch (post_request w s
                     (build_reviewData P (draft.rating d) (filledDishes (draft.dishes d)))),
            Alert_alert (js ''Error'') (EngineText JSON_SyntaxError) [],
            SetIsSubmitting False]
         \<and> \<not> succeeded (handleSubmit P w d)
         \<and> go_back_signals (handleSubmit P w d) = []"
proof -
  from assms(1,2) have v: "valid d" by (simp add: valid_def)
  have j: "json_result r = Inl (Error_instance (EngineText JSON_SyntaxError))"
    by (simp add: json_result_def assms(8,9))
  have h: "handleSubmit P w d =
           [SetIsSubmitting True, GetSession, ConsoleLog (filledDishes (draft.dishes d)),
            Fetch (post_request w s
                     (build_reviewData P (draft.rating d) (filledDishes (draft.dishes d)))),
            Alert_alert (js ''Error'') (EngineText JSON_SyntaxError) [],
            SetIsSubmitting False]"
    by (simp add: ok_run [OF v assms(3-7)] j catch_block_def)
  show ?thesis by (simp add: h succeeded_def js_def)
qed

text \<open>C10 on a 204 response with an empty body.\<close>

theorem unparsable_success_body_fails_witness:
  "ok no_content_204
   \<and> handleSubmit example_params (example_world signed_in (Inr no_content_204)) example_draft =
       [SetIsSubmitting True, GetSession, ConsoleLog [js ''Fries'', js ''  Burger  ''],
        Fetch example_post,
        Alert_alert (js ''Error'') (EngineText JSON_SyntaxError) [],
        SetIsSubmitting False]
   \<and> \<not> succeeded
         (handleSubmit example_params (example_world signed_in (Inr no_content_204)) example_draft)"
proof -
  have a: "\<exists>x \<in> set (draft.dishes example_draft). \<exists>c \<in> set x. \<not> is_trim_ws c"
    and b: "draft.rating example_draft \<noteq> 0"
    using valid_example by (simp_all add: valid_def)
  have k: "ok no_content_204" by (simp add: ok_def no_content_204_def)
  have t: "text_result no_content_204 = Inr []" by (simp add: no_content_204_def)
  have e: "reply_error \<lparr>reply_session = Some example_session, reply_error = None\<rparr> = None"
    and s: "reply_session \<lparr>reply_session = Some example_session, reply_error = None\<rparr>
              = Some example_session"
    by simp_all
  have "\<not> succeeded
         (handleSubmit example_params (example_world signed_in (Inr no_content_204)) example_draft)"
    by (rule unparsable_success_body_fails [OF a b signed_in_world(1) e s signed_in_world(2) k t empty_parses,
          THEN conjunct2, THEN conjunct1])
  with k no_content_run show ?thesis by blast
qed

section \<open>Properties of the feed\<close>

text \<open>
  C8.  After \<open>fetchFriendsReviews\<close>, called on mount or through \<open>onRefresh\<close>, both
  \<open>loading\<close> and \<open>refreshing\<close> are false whatever happened; and when the load failed
  (a rejected promise, a non-2xx status, an unparsable body) the review list is the one
  held before and no alert is shown.
\<close>

theorem failed_load_keeps_reviews:
  "\<not> loading (feed_after f (fetchFriendsReviews w))
   \<and> \<not> refreshing (feed_after f (fetchFriendsReviews w))
   \<and> \<not> loading (feed_after f (onRefresh w))
   \<and> \<not> refreshing (feed_after f (onRefresh w))
   \<and> (load_failed w \<longrightarrow>
        reviews (feed_after f (fetchFriendsReviews w)) = reviews f
        \<and> reviews (feed_after f (onRefresh w)) = reviews f
        \<and> alerts (fetchFriendsReviews w) = []
        \<and> alerts (onRefresh w) = [])"
proof -
  have r: "feed_after f (onRefresh w) = feed_after (f\<lparr>refreshing := True\<rparr>) (fetchFriendsReviews w)"
    by (simp add: onRefresh_def feed_after_def)
  have flags: "\<not> loading (feed_after f (fetchFriendsReviews w))"
    "\<not> refreshing (feed_after f (fetchFriendsReviews w))"
    "\<not> loading (feed_after f (onRefresh w))"
    "\<not> refreshing (feed_after f (onRefresh w))"
    using fetch_clears_flags [of f w] fetch_clears_flags [of "f\<lparr>refreshing := True\<rparr>" w]
    by (simp_all add: r)
  have kept: "reviews (feed_after f (fetchFriendsReviews w)) = reviews f
        \<and> reviews (feed_after f (onRefresh w)) = reviews f
        \<and> alerts (fetchFriendsReviews w) = []
        \<and> alerts (onRefresh w) = []" if "load_failed w"
  proof -
    note s = failed_fetch_effects [OF that]
    from reviews_kept [OF s, of f] reviews_kept [OF s, of "f\<lparr>refreshing := True\<rparr>"]
    show ?thesis by (simp add: r) (simp add: onRefresh_def)
  qed
  from flags kept show ?thesis by blast
qed

text \<open>C8 on a refresh while the network is down.\<close>

theorem failed_load_keeps_reviews_witness:
  "load_failed offline
   \<and> feed_after stale_feed (onRefresh offline)
       = \<lparr>reviews = JArray [JObject [(js ''id'', JString (js ''r1''))]], loading = False,
          refreshing = False\<rparr>
   \<and> alerts (onRefresh offline) = []"
proof -
  have l: "load_failed offline" by (simp add: load_failed_def offline_def signed_in_def)
  note c = failed_load_keeps_reviews [of stale_feed offline]
  have a: "\<not> loading (feed_after stale_feed (onRefresh offline))"
    by (rule c [THEN conjunct2, THEN conjunct2, THEN conjunct1])
  have b: "\<not> refreshing (feed_after stale_feed (onRefresh offline))"
    by (rule c [THEN conjunct2, THEN conjunct2, THEN conjunct2, THEN conjunct1])
  note k = c [THEN conjunct2, THEN conjunct2, THEN conjunct2, THEN conjunct2, THEN mp, OF l]
  have d: "reviews (feed_after stale_feed (onRefresh offline)) = reviews stale_feed"
    by (rule k [THEN conjunct2, THEN conjunct1])
  have e: "alerts (onRefresh offline) = []"
    by (rule k [THEN conjunct2, THEN conjunct2, THEN conjunct2])
  have "feed_after stale_feed (onRefresh offline)
       = \<lparr>reviews = JArray [JObject [(js ''id'', JString (js ''r1''))]], loading = False,
          refreshing = False\<rparr>"
    using a b d by (cases "feed_after stale_feed (onRefresh offline)") (simp add: stale_feed_def)
  with l e show ?thesis by blast
qed

text \<open>
  C9.  The label is decided by \<open>N\<close>, the ceiling of the elapsed days: \<open>N\<close> is the
  integer with \<open>(N - 1)\<close> days \<open><\<close> elapsed time \<open>\<le> N\<close> days; \<open>N = 0\<close> gives "Today",
  \<open>N = 1\<close> "Yesterday", \<open>2 \<le> N < 7\<close> "N days ago", and \<open>7 \<le> N\<close> the locale's date.  A date
  equal to now gives "Today", 25 hours earlier "2 days ago", 10 days earlier the locale's
  date.
\<close>

theorem formatDate_label:
  "formatDate (Some now) now = Label (js ''Today'')
   \<and> formatDate (Some (now - 25 * (60 * 60 * 1000))) now = Label (js ''2 days ago'')
   \<and> formatDate (Some (now - 10 * (24 * 60 * 60 * 1000))) now
       = LocaleDateString (Some (now - 10 * (24 * 60 * 60 * 1000)))
   \<and> (diffDays date now = N \<longleftrightarrow>
         (N - 1) * 86400000 < \<bar>now - date\<bar> \<and> \<bar>now - date\<bar> \<le> N * 86400000)
   \<and> 0 \<le> diffDays date now
   \<and> (diffDays date now = 0 \<longrightarrow> formatDate (Some date) now = Label (js ''Today''))
   \<and> (diffDays date now = 1 \<longrightarrow> formatDate (Some date) now = Label (js ''Yesterday''))
   \<and> (2 \<le> diffDays date now \<and> diffDays date now < 7 \<longrightarrow>
         formatDate (Some date) now = Label (show_nat (nat (diffDays date now)) @ js '' days ago''))
   \<and> (7 \<le> diffDays date now \<longrightarrow> formatDate (Some date) now = LocaleDateString (Some date))"
proof -
  have a: "diffDays now now = 0" by (simp add: diffDays_eq_iff)
  have b: "diffDays (now - 90000000) now = 2" by (simp add: diffDays_eq_iff)
  have c: "diffDays (now - 864000000) now = 10" by (simp add: diffDays_eq_iff)
  have 1: "formatDate (Some now) now = Label (js ''Today'')"
    by (simp add: formatDate_def a)
  have 2: "formatDate (Some (now - 25 * (60 * 60 * 1000))) now = Label (js ''2 days ago'')"
    by (simp add: formatDate_def b show_2) (simp add: js_def)
  have 3: "formatDate (Some (now - 10 * (24 * 60 * 60 * 1000))) now
       = LocaleDateString (Some (now - 10 * (24 * 60 * 60 * 1000)))"
    by (simp add: formatDate_def c)
  have 4: "diffDays date now = 0 \<longrightarrow> formatDate (Some date) now = Label (js ''Today'')"
    "diffDays date now = 1 \<longrightarrow> formatDate (Some date) now = Label (js ''Yesterday'')"
    "2 \<le> diffDays date now \<and> diffDays date now < 7 \<longrightarrow>
         formatDate (Some date) now = Label (show_nat (nat (diffDays date now)) @ js '' days ago'')"
    "7 \<le> diffDays date now \<longrightarrow> formatDate (Some date) now = LocaleDateString (Some date)"
    by (simp_all add: formatDate_def)
  from 1 2 3 4 diffDays_eq_iff [of date now N] diffDays_nonneg [of date now]
  show ?thesis by blast
qed

text \<open>C9 on a date three days back, and on a date one millisecond back.\<close>

theorem formatDate_label_witness:
  "diffDays 1700000000000 1700259200000 = 3
   \<and> formatDate (Some 1700000000000) 1700259200000 = Label (js ''3 days ago'')
   \<and> formatDate (Some 1700000000000) 1700000000001 = Label (js ''Yesterday'')"
proof -
  note c = formatDate_label [where date = 1700000000000 and now = 1700259200000 and N = 3]
  have d: "diffDays 1700000000000 1700259200000 = 3"
    using c [THEN conjunct2, THEN conjunct2, THEN conjunct2, THEN conjunct1] by simp
  from c have "2 \<le> diffDays 1700000000000 1700259200000 \<and> diffDays 1700000000000 1700259200000 < 7
     \<longrightarrow> formatDate (Some 1700000000000) 1700259200000
        = Label (show_nat (nat (diffDays 1700000000000 1700259200000)) @ js '' days ago'')"
    by blast
  then have e: "formatDate (Some 1700000000000) 1700259200000 = Label (js ''3 days ago'')"
    by (simp add: d show_nat.simps js_def)
  note c1 = formatDate_label [where date = 1700000000000 and now = 1700000000001 and N = 1]
  have d1: "diffDays 1700000000000 1700000000001 = 1"
    using c1 [THEN conjunct2, THEN conjunct2, THEN conjunct2, THEN conjunct1] by simp
  from c1 have "diffDays 1700000000000 1700000000001 = 1
     \<longrightarrow> formatDate (Some 1700000000000) 1700000000001 = Label (js ''Yesterday'')"
    by blast
  with d1 have f: "formatDate (Some 1700000000000) 1700000000001 = Label (js ''Yesterday'')"
    by simp
  from d e f show ?thesis by blast
qed

end
